theory Spec2Isabelle
  imports Complex_Main "HOL-Library.AList"
begin

section \<open>Values shared by the nodes\<close>

text \<open>
  The nodes are adapters written against the host interface \<^verbatim>\<open>IExecuteFunctions\<close>.
  JavaScript strings are modelled as \<^typ>\<open>string\<close>; a \<^typ>\<open>char\<close> stands for one code
  unit below 256. Result records are JSON objects: association lists in insertion order.
  The numbers that occur in the records built here are integers.
\<close>

datatype json =
    JNull
  | JBool bool
  | JNum int
  | JStr string
  | JArr "json list"
  | JObj "(string \<times> json) list"

type_synonym jobj = "(string \<times> json) list"

text \<open>Object spread \<^verbatim>\<open>{ ...a, ...b }\<close>: a key of \<open>b\<close> already in \<open>a\<close> is overwritten in
  place, a new key is appended.\<close>

definition spread :: "jobj \<Rightarrow> jobj \<Rightarrow> jobj" where
  "spread a b = foldl (\<lambda>acc kv. AList.update (fst kv) (snd kv) acc) a b"

text \<open>A promise is pending until the first \<^verbatim>\<open>resolve\<close> or \<^verbatim>\<open>reject\<close>; later calls of
  either are ignored.\<close>

text \<open>A rejected promise carries the \<^verbatim>\<open>message\<close> of the error it was rejected with.\<close>

datatype 'a promise = Pending | Resolved 'a | Rejected string

definition resolve :: "'a \<Rightarrow> 'a promise \<Rightarrow> 'a promise" where
  "resolve v p = (case p of Pending \<Rightarrow> Resolved v | _ \<Rightarrow> p)"

definition reject :: "string \<Rightarrow> 'a promise \<Rightarrow> 'a promise" where
  "reject e p = (case p of Pending \<Rightarrow> Rejected e | _ \<Rightarrow> p)"

text \<open>The host interface: the input items, the continue-on-failure flag and the
  parameter lookup by name and item index. A lookup may throw; \<open>Inl\<close> carries the
  message of the thrown error. The node schemas declare every parameter read below as a
  string or options value, except the port and the timeouts, which are numbers (here
  natural numbers: a port, whole seconds), and the
  collection \<^verbatim>\<open>browserOptions\<close> of the Web Browse Agent, each field of which may be
  absent; \<open>getBrowserOptions\<close> is its lookup at item 0.

  \<^verbatim>\<open>NodeOperationError\<close> is the error class of the host library: \<open>NodeOperationError h d\<close>
  is the \<^verbatim>\<open>message\<close> of the error that \<^verbatim>\<open>new NodeOperationError(getNode(), d)\<close> builds
  from the description \<open>d\<close>. The class is not part of the nodes, and the message it
  derives from a description is left to the host.\<close>

record browser_options =
  headless :: "bool option"
  userAgent :: "string option"
  viewportWidth :: "int option"
  viewportHeight :: "int option"

record host =
  getInputData :: "jobj list"
  continueOnFail :: bool
  getNodeParameter :: "string \<Rightarrow> nat \<Rightarrow> string + string"
  getNumberParameter :: "string \<Rightarrow> nat \<Rightarrow> string + nat"
  getBrowserOptions :: "string + browser_options"
  NodeOperationError :: "string \<Rightarrow> string"

text \<open>A JavaScript number is a finite double, an infinity or NaN. A finite double is
  modelled by its value, a real.\<close>

datatype number = Num real | PosInfinity | NaN

text \<open>What the JavaScript runtime supplies: \<^verbatim>\<open>JSON.parse\<close> (\<open>Inl\<close> is the message of the
  thrown \<^verbatim>\<open>SyntaxError\<close>), the random message id
  \<^verbatim>\<open>Math.random().toString(36).substring(7)\<close>, the clock reading
  \<^verbatim>\<open>new Date().toISOString()\<close>, and the arithmetic of doubles where its rounding matters:
  \<open>double_divide a b\<close> is \<^verbatim>\<open>a / b\<close> on two byte counts and \<open>double_times x c\<close> is
  \<^verbatim>\<open>x * c\<close>, each rounded to a double as the runtime does.\<close>

record runtime =
  JSON_parse :: "string \<Rightarrow> string + json"
  random_id :: string
  now_iso :: string
  double_divide :: "nat \<Rightarrow> nat \<Rightarrow> number"
  double_times :: "number \<Rightarrow> real \<Rightarrow> number"

text \<open>\<^verbatim>\<open>await\<close> of a call followed by a continuation: a rejection propagates, a pending
  call leaves the caller pending.\<close>

definition await :: "'a promise \<Rightarrow> ('a \<Rightarrow> 'b promise) \<Rightarrow> 'b promise" where
  "await p k = (case p of Pending \<Rightarrow> Pending | Rejected e \<Rightarrow> Rejected e | Resolved v \<Rightarrow> k v)"

text \<open>A call that may throw, inside an \<^verbatim>\<open>async\<close> function or a promise executor: a
  throw rejects the promise with the thrown error.\<close>

definition lookup :: "string + 'a \<Rightarrow> ('a \<Rightarrow> 'b promise) \<Rightarrow> 'b promise" where
  "lookup r k = (case r of Inl e \<Rightarrow> Rejected e | Inr v \<Rightarrow> k v)"

text \<open>The same inside a function that is not \<^verbatim>\<open>async\<close>: the throw propagates.\<close>

definition bindE :: "string + 'a \<Rightarrow> ('a \<Rightarrow> string + 'b) \<Rightarrow> string + 'b" where
  "bindE r k = (case r of Inl e \<Rightarrow> Inl e | Inr v \<Rightarrow> k v)"

subsection \<open>String helpers of the JavaScript runtime\<close>

text \<open>\<^verbatim>\<open>String.prototype.trim\<close> and the regular expression class \<^verbatim>\<open>\s\<close> use the same set:
  tab, line feed, vertical tab, form feed, carriage return, space and no-break space
  (the members of that set below 256).\<close>

definition isWhiteSpace :: "char \<Rightarrow> bool" where
  "isWhiteSpace c \<longleftrightarrow> of_char c \<in> {9, 10, 11, 12, 13, 32, 160 :: nat}"

definition trim :: "string \<Rightarrow> string" where
  "trim s = rev (dropWhile isWhiteSpace (rev (dropWhile isWhiteSpace s)))"

text \<open>The decimal rendering of a number in a template literal or a concatenation.\<close>

definition digit_char :: "nat \<Rightarrow> char" where
  "digit_char n = ''0123456789'' ! (n mod 10)"

fun show_nat :: "nat \<Rightarrow> string" where
  "show_nat n = (if n < 10 then [digit_char n] else show_nat (n div 10) @ [digit_char n])"

declare show_nat.simps [simp del]

definition show_int :: "int \<Rightarrow> string" where
  "show_int i = (if i < 0 then CHR ''-'' # show_nat (nat (- i)) else show_nat (nat i))"

section \<open>Terminal Agent: local command\<close>

text \<open>
  \<^verbatim>\<open>executeLocalCommand\<close> spawns \<^verbatim>\<open>sh -c command\<close> and registers four handlers. The child
  process is modelled by the events it emits, in order; \<^verbatim>\<open>code\<close> of the close event is
  \<^verbatim>\<open>null\<close> (here \<open>None\<close>) when the process was ended by a signal.
\<close>

datatype child_event =
    StdoutData string
  | StderrData string
  | Close "int option"
  | Error string

record command_result =
  exitCode :: "int option"
  stdout :: string
  stderr :: string
  success :: bool

record local_state =
  l_stdout :: string
  l_stderr :: string
  l_promise :: "command_result promise"

definition local_init :: local_state where
  "local_init = \<lparr>l_stdout = [], l_stderr = [], l_promise = Pending\<rparr>"

fun local_handle :: "host \<Rightarrow> local_state \<Rightarrow> child_event \<Rightarrow> local_state" where
  "local_handle h s (StdoutData d) = s\<lparr>l_stdout := l_stdout s @ d\<rparr>"
| "local_handle h s (StderrData d) = s\<lparr>l_stderr := l_stderr s @ d\<rparr>"
| "local_handle h s (Close code) =
     s\<lparr>l_promise := resolve
          \<lparr>exitCode = code, stdout = trim (l_stdout s), stderr = trim (l_stderr s),
           success = (code = Some 0)\<rparr> (l_promise s)\<rparr>"
| "local_handle h s (Error msg) =
     s\<lparr>l_promise := reject (NodeOperationError h (''Command execution failed: '' @ msg))
                      (l_promise s)\<rparr>"

text \<open>\<open>spawn\<close> is the process spawner: command, arguments and the \<^verbatim>\<open>cwd\<close> option, giving
  the events of the child, or the message of the error that the call itself throws. The
  working directory is set only when the parameter is a non-empty string.\<close>

type_synonym spawner =
  "string \<Rightarrow> string list \<Rightarrow> string option \<Rightarrow> string + child_event list"

definition executeLocalCommand ::
  "host \<Rightarrow> spawner \<Rightarrow> string \<Rightarrow> nat \<Rightarrow> command_result promise" where
  "executeLocalCommand h spawn command itemIndex =
     lookup (getNodeParameter h ''workingDirectory'' itemIndex) (\<lambda>workingDirectory.
     lookup (spawn ''sh'' [''-c'', command]
               (if workingDirectory \<noteq> [] then Some workingDirectory else None)) (\<lambda>child.
       l_promise (foldl (local_handle h) local_init child)))"

text \<open>What the stdout and stderr handlers have accumulated over a run of events, and
  whether an event calls \<^verbatim>\<open>resolve\<close> or \<^verbatim>\<open>reject\<close>.\<close>

fun is_settling :: "child_event \<Rightarrow> bool" where
  "is_settling (Close _) = True"
| "is_settling (Error _) = True"
| "is_settling _ = False"

fun stdout_chunks :: "child_event list \<Rightarrow> string" where
  "stdout_chunks [] = []"
| "stdout_chunks (StdoutData d # es) = d @ stdout_chunks es"
| "stdout_chunks (_ # es) = stdout_chunks es"

fun stderr_chunks :: "child_event list \<Rightarrow> string" where
  "stderr_chunks [] = []"
| "stderr_chunks (StderrData d # es) = d @ stderr_chunks es"
| "stderr_chunks (_ # es) = stderr_chunks es"

section \<open>Terminal Agent: remote command over SSH\<close>

text \<open>
  \<^verbatim>\<open>executeRemoteCommand\<close> arms a timer of \<^verbatim>\<open>timeout * 1000\<close> milliseconds, registers the
  \<^verbatim>\<open>ready\<close> and \<^verbatim>\<open>error\<close> handlers and connects. The connection is modelled by the events
  delivered to the promise executor, in order. \<open>TimerElapsed\<close> is the moment the wall
  clock reaches the timeout: the timer callback runs only if \<^verbatim>\<open>clearTimeout\<close> has not
  been called before. \<open>ExecCallback\<close> is the callback of \<^verbatim>\<open>conn.exec\<close>, with the error
  message if \<^verbatim>\<open>err\<close> is set; the stream handlers exist only after it ran without error.
\<close>

datatype ssh_event =
    Ready
  | ConnError string
  | TimerElapsed
  | ExecCallback "string option"
  | StreamData string
  | StreamStderrData string
  | StreamClose "int option"

record ssh_state =
  r_timer :: bool
  r_ended :: bool
  r_exec :: bool
  r_stream :: bool
  r_stdout :: string
  r_stderr :: string
  r_promise :: "command_result promise"

definition ssh_init :: ssh_state where
  "ssh_init = \<lparr>r_timer = True, r_ended = False, r_exec = False, r_stream = False,
     r_stdout = [], r_stderr = [], r_promise = Pending\<rparr>"

fun ssh_handle :: "host \<Rightarrow> nat \<Rightarrow> ssh_state \<Rightarrow> ssh_event \<Rightarrow> ssh_state" where
  "ssh_handle h timeout s TimerElapsed =
     (if r_timer s
      then s\<lparr>r_timer := False, r_ended := True,
             r_promise := reject
               (NodeOperationError h
                  (''SSH connection timeout after '' @ show_nat timeout @ '' seconds''))
               (r_promise s)\<rparr>
      else s)"
| "ssh_handle h timeout s Ready = s\<lparr>r_timer := False, r_exec := True\<rparr>"
| "ssh_handle h timeout s (ExecCallback err) =
     (if r_exec s
      then (case err of
              Some msg \<Rightarrow> s\<lparr>r_exec := False, r_ended := True,
                             r_promise := reject
                               (NodeOperationError h (''SSH exec failed: '' @ msg))
                               (r_promise s)\<rparr>
            | None \<Rightarrow> s\<lparr>r_exec := False, r_stream := True, r_stdout := [], r_stderr := []\<rparr>)
      else s)"
| "ssh_handle h timeout s (StreamClose code) =
     (if r_stream s
      then s\<lparr>r_ended := True,
             r_promise := resolve
               \<lparr>exitCode = code, stdout = trim (r_stdout s), stderr = trim (r_stderr s),
                success = (code = Some 0)\<rparr> (r_promise s)\<rparr>
      else s)"
| "ssh_handle h timeout s (StreamData d) =
     (if r_stream s then s\<lparr>r_stdout := r_stdout s @ d\<rparr> else s)"
| "ssh_handle h timeout s (StreamStderrData d) =
     (if r_stream s then s\<lparr>r_stderr := r_stderr s @ d\<rparr> else s)"
| "ssh_handle h timeout s (ConnError msg) =
     s\<lparr>r_timer := False,
       r_promise := reject (NodeOperationError h (''SSH connection failed: '' @ msg))
                      (r_promise s)\<rparr>"

record connection_config =
  c_host :: string
  c_port :: nat
  c_username :: string
  c_password :: "string option"
  c_privateKey :: "string option"

text \<open>\<open>connect\<close> is the SSH client: configuration and command, giving the events of the
  session, or the message of the error that \<^verbatim>\<open>conn.connect\<close> itself throws.\<close>

type_synonym ssh_client = "connection_config \<Rightarrow> string \<Rightarrow> string + ssh_event list"

definition ssh_run :: "host \<Rightarrow> nat \<Rightarrow> ssh_event list \<Rightarrow> ssh_state" where
  "ssh_run h timeout evs = foldl (ssh_handle h timeout) ssh_init evs"



definition executeRemoteCommand ::
  "host \<Rightarrow> ssh_client \<Rightarrow> string \<Rightarrow> nat \<Rightarrow> nat \<Rightarrow> command_result promise" where
  "executeRemoteCommand h connect command itemIndex timeout =
     lookup (getNodeParameter h ''host'' itemIndex) (\<lambda>host.
     lookup (getNumberParameter h ''port'' itemIndex) (\<lambda>port.
     lookup (getNodeParameter h ''username'' itemIndex) (\<lambda>username.
     lookup (getNodeParameter h ''authMethod'' itemIndex) (\<lambda>authMethod.
     lookup (getNodeParameter h ''password'' itemIndex) (\<lambda>password.
     lookup (getNodeParameter h ''privateKey'' itemIndex) (\<lambda>privateKey.
     lookup (connect
               \<lparr>c_host = host, c_port = port, c_username = username,
                c_password = (if authMethod = ''password'' then Some password else None),
                c_privateKey = (if authMethod = ''password'' then None else Some privateKey)\<rparr>
               command) (\<lambda>session.
       r_promise (ssh_run h timeout session))))))))"

section \<open>MCP Connector\<close>

text \<open>
  \<^verbatim>\<open>buildMCPMessage\<close> builds the JSON-RPC envelope of an operation. Parameter lookups and
  \<^verbatim>\<open>JSON.parse\<close> may throw, an unknown operation throws; \<open>Inl\<close> is the message of the
  thrown error.
\<close>

definition baseMessage :: "runtime \<Rightarrow> jobj" where
  "baseMessage rt =
     [(''jsonrpc'', JStr ''2.0''), (''id'', JStr (random_id rt)),
      (''method'', JStr []), (''params'', JObj [])]"

definition buildMCPMessage :: "host \<Rightarrow> runtime \<Rightarrow> string \<Rightarrow> nat \<Rightarrow> string + json" where
  "buildMCPMessage h rt operation itemIndex =
     (if operation = ''initialize'' then
        Inr (JObj (spread (baseMessage rt)
          [(''method'', JStr ''initialize''),
           (''params'', JObj
              [(''protocolVersion'', JStr ''2024-11-05''),
               (''capabilities'', JObj [(''tools'', JObj []), (''resources'', JObj [])]),
               (''clientInfo'', JObj
                  [(''name'', JStr ''n8n-intelligence-hub''), (''version'', JStr ''1.0.0'')])])]))
      else if operation = ''listTools'' then
        Inr (JObj (spread (baseMessage rt) [(''method'', JStr ''tools/list'')]))
      else if operation = ''callTool'' then
        bindE (getNodeParameter h ''toolName'' itemIndex) (\<lambda>toolName.
        bindE (getNodeParameter h ''toolArguments'' itemIndex) (\<lambda>toolArguments.
        bindE (JSON_parse rt toolArguments) (\<lambda>arguments.
          Inr (JObj (spread (baseMessage rt)
            [(''method'', JStr ''tools/call''),
             (''params'', JObj [(''name'', JStr toolName), (''arguments'', arguments)])])))))
      else if operation = ''listResources'' then
        Inr (JObj (spread (baseMessage rt) [(''method'', JStr ''resources/list'')]))
      else if operation = ''readResource'' then
        bindE (getNodeParameter h ''resourceUri'' itemIndex) (\<lambda>resourceUri.
          Inr (JObj (spread (baseMessage rt)
            [(''method'', JStr ''resources/read''),
             (''params'', JObj [(''uri'', JStr resourceUri)])])))
      else if operation = ''sendMessage'' then
        bindE (getNodeParameter h ''customMessage'' itemIndex) (\<lambda>customMessage.
          JSON_parse rt customMessage)
      else Inl (NodeOperationError h (''Unknown operation: '' @ operation)))"

subsection \<open>WebSocket transport\<close>

text \<open>
  \<^verbatim>\<open>executeWebSocketOperation\<close> opens a socket, arms a timer and registers four handlers.
  The socket is modelled by the events delivered, in order; \<open>WsTimer\<close> is the moment the
  wall clock reaches the timeout, and the timer callback runs only if \<^verbatim>\<open>clearTimeout\<close>
  has not been called before. \<open>w_sent\<close> collects the messages handed to \<^verbatim>\<open>ws.send\<close>,
  \<open>w_closed\<close> records a call of \<^verbatim>\<open>ws.close\<close>.
\<close>

datatype ws_event = WsOpen | WsMessage string | WsError string | WsClose | WsTimer

record ws_state =
  w_responseReceived :: bool
  w_timer :: bool
  w_closed :: bool
  w_sent :: "json list"
  w_promise :: "jobj promise"

definition ws_init :: ws_state where
  "ws_init = \<lparr>w_responseReceived = False, w_timer = True, w_closed = False, w_sent = [],
     w_promise = Pending\<rparr>"

fun ws_handle ::
  "host \<Rightarrow> runtime \<Rightarrow> string \<Rightarrow> nat \<Rightarrow> nat \<Rightarrow> ws_state \<Rightarrow> ws_event \<Rightarrow> ws_state" where
  "ws_handle h rt operation itemIndex timeout s WsTimer =
     (if w_timer s
      then (if \<not> w_responseReceived s
            then s\<lparr>w_timer := False, w_closed := True,
                   w_promise := reject
                     (NodeOperationError h
                        (''WebSocket operation timeout after '' @ show_nat timeout @ '' seconds''))
                     (w_promise s)\<rparr>
            else s\<lparr>w_timer := False\<rparr>)
      else s)"
| "ws_handle h rt operation itemIndex timeout s WsOpen =
     (case buildMCPMessage h rt operation itemIndex of
        Inr message \<Rightarrow> s\<lparr>w_sent := w_sent s @ [message]\<rparr>
      | Inl e \<Rightarrow> s\<lparr>w_timer := False, w_closed := True,
                   w_promise := reject (NodeOperationError h (''Failed to send message: '' @ e))
                                  (w_promise s)\<rparr>)"
| "ws_handle h rt operation itemIndex timeout s (WsMessage data) =
     (case JSON_parse rt data of
        Inr response \<Rightarrow>
          s\<lparr>w_responseReceived := True, w_timer := False, w_closed := True,
            w_promise := resolve
              [(''success'', JBool True), (''response'', response),
               (''timestamp'', JStr (now_iso rt))] (w_promise s)\<rparr>
      | Inl e \<Rightarrow>
          s\<lparr>w_responseReceived := True, w_timer := False, w_closed := True,
            w_promise := reject (NodeOperationError h (''Failed to parse response: '' @ e))
                           (w_promise s)\<rparr>)"
| "ws_handle h rt operation itemIndex timeout s (WsError msg) =
     s\<lparr>w_responseReceived := True, w_timer := False,
       w_promise := reject (NodeOperationError h (''WebSocket error: '' @ msg)) (w_promise s)\<rparr>"
| "ws_handle h rt operation itemIndex timeout s WsClose =
     (if \<not> w_responseReceived s
      then s\<lparr>w_timer := False,
             w_promise := reject (NodeOperationError h ''WebSocket connection closed unexpectedly'')
                            (w_promise s)\<rparr>
      else s)"

text \<open>\<open>socket\<close> is the WebSocket client: the server URL, giving the events of the
  connection, or the message of the error the constructor throws.\<close>

type_synonym ws_client = "string \<Rightarrow> string + ws_event list"

definition ws_run ::
  "host \<Rightarrow> runtime \<Rightarrow> string \<Rightarrow> nat \<Rightarrow> nat \<Rightarrow> ws_event list \<Rightarrow> ws_state" where
  "ws_run h rt operation itemIndex timeout evs =
     foldl (ws_handle h rt operation itemIndex timeout) ws_init evs"

definition executeWebSocketOperation ::
  "host \<Rightarrow> runtime \<Rightarrow> ws_client \<Rightarrow> string \<Rightarrow> string \<Rightarrow> nat \<Rightarrow> nat \<Rightarrow> jobj promise" where
  "executeWebSocketOperation h rt socket serverUrl operation itemIndex timeout =
     lookup (socket serverUrl) (\<lambda>evs.
       w_promise (ws_run h rt operation itemIndex timeout evs))"

subsection \<open>HTTP transport\<close>

text \<open>
  \<^verbatim>\<open>executeHttpOperation\<close> builds the message outside its \<^verbatim>\<open>try\<close>; the request to the
  server is commented out in the source. The result is paired with the list of HTTP
  requests issued (URL and body).
\<close>

type_synonym http_request = "string \<times> json"

definition executeHttpOperation ::
  "host \<Rightarrow> runtime \<Rightarrow> string \<Rightarrow> string \<Rightarrow> nat \<Rightarrow> nat \<Rightarrow> jobj promise \<times> http_request list" where
  "executeHttpOperation h rt serverUrl operation itemIndex timeout =
     (case buildMCPMessage h rt operation itemIndex of
        Inl e \<Rightarrow> (Rejected e, [])
      | Inr message \<Rightarrow>
          (Resolved
             [(''success'', JBool True),
              (''response'', JObj [(''message'', JStr ''HTTP MCP not fully implemented yet'')]),
              (''timestamp'', JStr (now_iso rt))], []))"

section \<open>Hub Monitor\<close>

subsection \<open>Disk check\<close>





subsection \<open>Memory check\<close>

text \<open>
  \<^verbatim>\<open>checkMemoryUsage\<close> reads \<^verbatim>\<open>heapTotal\<close> and \<^verbatim>\<open>heapUsed\<close> (bytes) from
  \<^verbatim>\<open>process.memoryUsage()\<close>. The usage percentage is computed with the division and the
  multiplication of the runtime, so it is the double that the code compares and rounds.
  Comparisons of doubles are exact, and comparisons with NaN are false. \<^verbatim>\<open>Math.round\<close>
  gives the nearest integer, halves upwards, and keeps NaN and the infinity. Dividing a
  byte count by 1024 is exact.
\<close>

fun js_greater :: "number \<Rightarrow> real \<Rightarrow> bool" where
  "js_greater (Num x) c = (x > c)"
| "js_greater PosInfinity c = True"
| "js_greater NaN c = False"

fun Math_round :: "number \<Rightarrow> number" where
  "Math_round (Num x) = Num (of_int (round x))"
| "Math_round PosInfinity = PosInfinity"
| "Math_round NaN = NaN"

text \<open>The status expression of \<^verbatim>\<open>checkMemoryUsage\<close>:
  \<^verbatim>\<open>usage > 90 ? 'critical' : usage > 70 ? 'warning' : 'ok'\<close>.\<close>

definition usage_status :: "number \<Rightarrow> string" where
  "usage_status usage =
     (if js_greater usage 90 then ''critical''
      else if js_greater usage 70 then ''warning'' else ''ok'')"

record memory_usage =
  heapTotal :: nat
  heapUsed :: nat

record memory_check =
  m_total :: string
  m_used :: string
  m_free :: string
  m_usage :: number
  m_status :: string

definition megabytes :: "int \<Rightarrow> string" where
  "megabytes bytes = show_int (round (real_of_int bytes / 1024 / 1024)) @ ''MB''"

text \<open>The unrounded percentage \<^verbatim>\<open>(heapUsed / heapTotal) * 100\<close>.\<close>

definition raw_usage :: "runtime \<Rightarrow> memory_usage \<Rightarrow> number" where
  "raw_usage rt totalMem =
     double_times rt (double_divide rt (heapUsed totalMem) (heapTotal totalMem)) 100"

definition checkMemoryUsage :: "runtime \<Rightarrow> memory_usage \<Rightarrow> memory_check" where
  "checkMemoryUsage rt totalMem =
     (let freeMem = int (heapTotal totalMem) - int (heapUsed totalMem);
          usage = raw_usage rt totalMem
      in \<lparr>m_total = megabytes (int (heapTotal totalMem)),
          m_used = megabytes (int (heapUsed totalMem)),
          m_free = megabytes freeMem,
          m_usage = Math_round usage,
          m_status = usage_status usage\<rparr>)"

subsection \<open>Process list\<close>

text \<open>
  \<^verbatim>\<open>String.prototype.split\<close> with a one-character separator, and with the regular
  expression \<^verbatim>\<open>/\s+/\<close> (maximal runs of white space separate the pieces).
\<close>

fun split_on :: "char \<Rightarrow> string \<Rightarrow> string list" where
  "split_on c [] = [[]]"
| "split_on c (x # xs) =
     (if x = c then [] # split_on c xs
      else (case split_on c xs of [] \<Rightarrow> [[x]] | w # ws \<Rightarrow> (x # w) # ws))"

function split_ws :: "string \<Rightarrow> string list" where
  "split_ws [] = [[]]"
| "split_ws (x # xs) =
     (if isWhiteSpace x then [] # split_ws (dropWhile isWhiteSpace xs)
      else (case split_ws xs of [] \<Rightarrow> [[x]] | w # ws \<Rightarrow> (x # w) # ws))"
  by pat_completeness auto
termination
  by (relation "measure length") (auto simp: length_dropWhile_le less_Suc_eq_le)

text \<open>\<^verbatim>\<open>Array.prototype.join\<close>.\<close>

fun join :: "string \<Rightarrow> string list \<Rightarrow> string" where
  "join sep [] = []"
| "join sep [x] = x"
| "join sep (x # y # ys) = x @ sep @ join sep (y # ys)"

record process_entry =
  proc_name :: string
  proc_pid :: string

text \<open>The body of the loop of \<^verbatim>\<open>parseProcessList\<close> up to the filter: process name and pid
  of a line, both empty when the line has too few fields.\<close>

definition parse_line :: "bool \<Rightarrow> string \<Rightarrow> string \<times> string" where
  "parse_line isWindows line =
     (if isWindows then
        (let parts = split_on CHR '','' line
         in if length parts > 1
            then (filter (\<lambda>c. c \<noteq> CHR 0x22) (parts ! 0), filter (\<lambda>c. c \<noteq> CHR 0x22) (parts ! 1))
            else ([], []))
      else
        (let parts = split_ws (trim line)
         in if length parts > 10
            then (join '' '' (drop 10 parts), parts ! 1)
            else ([], [])))"

fun process_lines ::
  "(string \<Rightarrow> bool) option \<Rightarrow> bool \<Rightarrow> string list \<Rightarrow> process_entry list \<Rightarrow> process_entry list" where
  "process_lines regex isWindows [] processes = processes"
| "process_lines regex isWindows (line # lines) processes =
     (if trim line = [] then process_lines regex isWindows lines processes
      else
        (let (processName, pid) = parse_line isWindows line
         in if processName \<noteq> [] \<and> (case regex of None \<Rightarrow> True | Some test \<Rightarrow> test processName)
            then process_lines regex isWindows lines
                   (processes @ [\<lparr>proc_name = processName, proc_pid = pid\<rparr>])
            else process_lines regex isWindows lines processes))"

text \<open>\<open>RegExp_i\<close> is the constructor \<^verbatim>\<open>new RegExp(pattern, 'i')\<close>: the \<^verbatim>\<open>test\<close> method
  of the compiled expression, or the message of the \<^verbatim>\<open>SyntaxError\<close> it throws. Without
  the flags \<^verbatim>\<open>g\<close> and \<^verbatim>\<open>y\<close>, \<^verbatim>\<open>test\<close> keeps no state between calls.\<close>

type_synonym regexp_engine = "string \<Rightarrow> string + (string \<Rightarrow> bool)"

definition parseProcessList ::
  "regexp_engine \<Rightarrow> string \<Rightarrow> string \<Rightarrow> bool \<Rightarrow> string + process_entry list" where
  "parseProcessList RegExp_i output pattern isWindows =
     (let lines = split_on CHR 0x0A output
      in if pattern \<noteq> []
         then bindE (RegExp_i pattern) (\<lambda>test.
                Inr (process_lines (Some test) isWindows lines []))
         else Inr (process_lines None isWindows lines []))"

subsection \<open>Process monitor\<close>

text \<open>
  \<^verbatim>\<open>executeProcessMonitor\<close> spawns the listing command of the platform. Only stdout,
  close and error have handlers. An exception thrown by \<^verbatim>\<open>parseProcessList\<close> inside the
  close handler is not caught there: the promise is left as it is.
\<close>

record monitor_state =
  p_output :: string
  p_promise :: "jobj promise"

definition monitor_init :: monitor_state where
  "monitor_init = \<lparr>p_output = [], p_promise = Pending\<rparr>"

definition entry_json :: "process_entry \<Rightarrow> json" where
  "entry_json p = JObj [(''name'', JStr (proc_name p)), (''pid'', JStr (proc_pid p))]"

fun monitor_handle ::
  "host \<Rightarrow> regexp_engine \<Rightarrow> string \<Rightarrow> bool \<Rightarrow> monitor_state \<Rightarrow> child_event
   \<Rightarrow> monitor_state" where
  "monitor_handle h RegExp_i processPattern isWindows s (StdoutData d) =
     s\<lparr>p_output := p_output s @ d\<rparr>"
| "monitor_handle h RegExp_i processPattern isWindows s (StderrData d) = s"
| "monitor_handle h RegExp_i processPattern isWindows s (Close code) =
     (if code \<noteq> Some 0
      then s\<lparr>p_promise := reject (NodeOperationError h ''Failed to get process list'')
                             (p_promise s)\<rparr>
      else (case parseProcessList RegExp_i (p_output s) processPattern isWindows of
              Inl e \<Rightarrow> s
            | Inr processes \<Rightarrow>
                s\<lparr>p_promise := resolve
                    [(''processes'', JArr (map entry_json processes)),
                     (''pattern'', JStr processPattern),
                     (''count'', JNum (int (length processes)))] (p_promise s)\<rparr>))"
| "monitor_handle h RegExp_i processPattern isWindows s (Error msg) =
     s\<lparr>p_promise := reject (NodeOperationError h (''Process monitor failed: '' @ msg))
                      (p_promise s)\<rparr>"

definition executeProcessMonitor ::
  "host \<Rightarrow> spawner \<Rightarrow> regexp_engine \<Rightarrow> bool \<Rightarrow> nat \<Rightarrow> jobj promise" where
  "executeProcessMonitor h spawn RegExp_i isWindows itemIndex =
     lookup (getNodeParameter h ''processPattern'' itemIndex) (\<lambda>processPattern.
     lookup (spawn (if isWindows then ''tasklist'' else ''ps'')
               (if isWindows then [''/fo'', ''csv''] else [''aux'']) None) (\<lambda>child.
       p_promise (foldl (monitor_handle h RegExp_i processPattern isWindows) monitor_init
                    child)))"

section \<open>The execute entry points\<close>

text \<open>
  Every node runs the same loop over the item indices: the item's work inside a
  \<^verbatim>\<open>try\<close>, its result pushed to \<^verbatim>\<open>returnData\<close>; in the \<^verbatim>\<open>catch\<close>, an error-shaped entry
  is pushed and the loop continues when \<^verbatim>\<open>continueOnFail()\<close> holds, otherwise the error is
  thrown again. \<open>work\<close> is the body of the \<^verbatim>\<open>try\<close> up to the push, \<open>on_error\<close> builds the
  error-shaped entry.
\<close>

fun run_items ::
  "bool \<Rightarrow> (string \<Rightarrow> jobj) \<Rightarrow> (nat \<Rightarrow> jobj promise) \<Rightarrow> nat list \<Rightarrow> jobj list
   \<Rightarrow> jobj list promise" where
  "run_items cont on_error work [] returnData = Resolved returnData"
| "run_items cont on_error work (i # rest) returnData =
     (case work i of
        Resolved entry \<Rightarrow> run_items cont on_error work rest (returnData @ [entry])
      | Rejected e \<Rightarrow>
          (if cont then run_items cont on_error work rest (returnData @ [on_error e])
           else Rejected e)
      | Pending \<Rightarrow> Pending)"

definition error_entry :: "string \<Rightarrow> jobj" where
  "error_entry e = [(''error'', JStr e)]"

text \<open>What the loop is expected to return when failures do not abort it: one entry per
  item index, in order, the item's result if its work resolved and the error-shaped
  entry of its error if it was rejected. The loop itself may only resolve with such a
  list, or stay pending, and that only if the work of some item stays pending.\<close>

definition one_entry_per_item ::
  "(string \<Rightarrow> jobj) \<Rightarrow> (nat \<Rightarrow> jobj promise) \<Rightarrow> nat list \<Rightarrow> jobj list \<Rightarrow> bool" where
  "one_entry_per_item on_error work indices out \<longleftrightarrow>
     list_all2 (\<lambda>i entry. case work i of
                   Resolved result \<Rightarrow> entry = result
                 | Rejected e \<Rightarrow> entry = on_error e
                 | Pending \<Rightarrow> False) indices out"

definition keeps_every_item ::
  "(string \<Rightarrow> jobj) \<Rightarrow> (nat \<Rightarrow> jobj promise) \<Rightarrow> nat \<Rightarrow> jobj list promise \<Rightarrow> bool" where
  "keeps_every_item on_error work n outcome \<longleftrightarrow>
     (case outcome of
        Resolved out \<Rightarrow> length out = n \<and> one_entry_per_item on_error work [0 ..< n] out
      | Rejected e \<Rightarrow> False
      | Pending \<Rightarrow> (\<exists>i<n. work i = Pending))"

subsection \<open>Terminal Agent\<close>

definition result_json :: "command_result \<Rightarrow> jobj" where
  "result_json r =
     [(''exitCode'', (case exitCode r of None \<Rightarrow> JNull | Some c \<Rightarrow> JNum c)),
      (''stdout'', JStr (stdout r)), (''stderr'', JStr (stderr r)),
      (''success'', JBool (success r))]"

definition terminal_item :: "host \<Rightarrow> spawner \<Rightarrow> ssh_client \<Rightarrow> nat \<Rightarrow> jobj promise" where
  "terminal_item h spawn connect i =
     lookup (getNodeParameter h ''executionMode'' i) (\<lambda>executionMode.
     lookup (getNodeParameter h ''command'' i) (\<lambda>command.
     lookup (getNumberParameter h ''timeout'' i) (\<lambda>timeout.
       await (if executionMode = ''local''
              then executeLocalCommand h spawn command i
              else executeRemoteCommand h connect command i timeout) (\<lambda>result.
         Resolved (spread [(''command'', JStr command), (''executionMode'', JStr executionMode)]
                     (result_json result))))))"

definition TerminalAgent_execute :: "host \<Rightarrow> spawner \<Rightarrow> ssh_client \<Rightarrow> jobj list promise" where
  "TerminalAgent_execute h spawn connect =
     run_items (continueOnFail h) error_entry (terminal_item h spawn connect)
       [0 ..< length (getInputData h)] []"

subsection \<open>MCP Connector\<close>

definition mcp_item :: "host \<Rightarrow> runtime \<Rightarrow> ws_client \<Rightarrow> nat \<Rightarrow> jobj promise" where
  "mcp_item h rt socket i =
     lookup (getNodeParameter h ''connectionType'' i) (\<lambda>connectionType.
     lookup (getNodeParameter h ''serverUrl'' i) (\<lambda>serverUrl.
     lookup (getNodeParameter h ''operation'' i) (\<lambda>operation.
     lookup (getNumberParameter h ''timeout'' i) (\<lambda>timeout.
       await (if connectionType = ''websocket''
              then executeWebSocketOperation h rt socket serverUrl operation i timeout
              else fst (executeHttpOperation h rt serverUrl operation i timeout)) (\<lambda>result.
         Resolved (spread [(''operation'', JStr operation),
                           (''connectionType'', JStr connectionType),
                           (''serverUrl'', JStr serverUrl)] result))))))"

definition MCPConnector_execute :: "host \<Rightarrow> runtime \<Rightarrow> ws_client \<Rightarrow> jobj list promise" where
  "MCPConnector_execute h rt socket =
     run_items (continueOnFail h) error_entry (mcp_item h rt socket)
       [0 ..< length (getInputData h)] []"

subsection \<open>LM Studio Agent\<close>

text \<open>The three request functions call the HTTP client; \<open>request\<close> is the outcome of
  the call for an operation, server URL and item index.\<close>

definition lmstudio_item ::
  "host \<Rightarrow> (string \<Rightarrow> string \<Rightarrow> nat \<Rightarrow> jobj promise) \<Rightarrow> nat \<Rightarrow> jobj promise" where
  "lmstudio_item h request i =
     lookup (getNodeParameter h ''lmStudioUrl'' i) (\<lambda>lmStudioUrl.
     lookup (getNodeParameter h ''operation'' i) (\<lambda>operation.
       if operation \<in> set [''chat'', ''completion'', ''listModels'']
       then await (request operation lmStudioUrl i) (\<lambda>result.
              Resolved (spread [(''operation'', JStr operation)] result))
       else Rejected (NodeOperationError h (''Unknown operation: '' @ operation))))"

definition LMStudioAgent_execute ::
  "host \<Rightarrow> (string \<Rightarrow> string \<Rightarrow> nat \<Rightarrow> jobj promise) \<Rightarrow> jobj list promise" where
  "LMStudioAgent_execute h request =
     run_items (continueOnFail h) error_entry (lmstudio_item h request)
       [0 ..< length (getInputData h)] []"

subsection \<open>Hub Monitor\<close>

text \<open>\<open>monitor\<close> is the outcome of the operation function called for an operation and
  item index. The error-shaped entry of this node carries a timestamp too.\<close>

definition hub_item ::
  "host \<Rightarrow> runtime \<Rightarrow> (string \<Rightarrow> nat \<Rightarrow> jobj promise) \<Rightarrow> nat \<Rightarrow> jobj promise" where
  "hub_item h rt monitor i =
     lookup (getNodeParameter h ''operation'' i) (\<lambda>operation.
       if operation \<in> set [''systemHealth'', ''serviceStatus'', ''networkScan'',
                          ''processMonitor'', ''performanceMetrics'']
       then await (monitor operation i) (\<lambda>result.
              Resolved (spread [(''operation'', JStr operation),
                                (''timestamp'', JStr (now_iso rt))] result))
       else Rejected (NodeOperationError h (''Unknown operation: '' @ operation)))"

text \<open>The operation functions of the node: \<^verbatim>\<open>executeProcessMonitor\<close> for the operation
  "processMonitor", \<open>others\<close> for the outcome of the four other functions.\<close>

definition hub_monitor ::
  "host \<Rightarrow> spawner \<Rightarrow> regexp_engine \<Rightarrow> bool \<Rightarrow> (string \<Rightarrow> nat \<Rightarrow> jobj promise)
   \<Rightarrow> string \<Rightarrow> nat \<Rightarrow> jobj promise" where
  "hub_monitor h spawn RegExp_i isWindows others operation i =
     (if operation = ''processMonitor'' then executeProcessMonitor h spawn RegExp_i isWindows i
      else others operation i)"

definition hub_error_entry :: "runtime \<Rightarrow> string \<Rightarrow> jobj" where
  "hub_error_entry rt e = [(''error'', JStr e), (''timestamp'', JStr (now_iso rt))]"

definition HubMonitor_execute ::
  "host \<Rightarrow> runtime \<Rightarrow> (string \<Rightarrow> nat \<Rightarrow> jobj promise) \<Rightarrow> jobj list promise" where
  "HubMonitor_execute h rt monitor =
     run_items (continueOnFail h) (hub_error_entry rt) (hub_item h rt monitor)
       [0 ..< length (getInputData h)] []"

subsection \<open>Web Browse Agent\<close>

text \<open>
  The browser driver: the outcome of each awaited call. \<open>pageOperation\<close> is the outcome
  of the operation function called for an operation and item index. The calls made on
  the driver are recorded in order, so that the release of the browser can be stated.
\<close>

record puppeteer =
  launch :: "bool \<Rightarrow> unit promise"
  newPage :: "unit promise"
  setViewport :: "int \<Rightarrow> int \<Rightarrow> unit promise"
  setUserAgent :: "string \<Rightarrow> unit promise"
  pageOperation :: "string \<Rightarrow> nat \<Rightarrow> jobj promise"
  browserClose :: "unit promise"

datatype browser_call =
    Launch bool
  | NewPage
  | SetViewport int int
  | SetUserAgent string
  | PageOperation string nat
  | BrowserClose

text \<open>\<^verbatim>\<open>x || d\<close> on an optional number: absent and 0 are falsy.\<close>

definition truthy :: "int option \<Rightarrow> bool" where
  "truthy x = (case x of None \<Rightarrow> False | Some n \<Rightarrow> n \<noteq> 0)"

definition or_default :: "int option \<Rightarrow> int \<Rightarrow> int" where
  "or_default x d = (case x of None \<Rightarrow> d | Some n \<Rightarrow> if n \<noteq> 0 then n else d)"

text \<open>An awaited driver call: recorded, then the continuation runs if it resolved.\<close>

definition driver_call ::
  "unit promise \<Rightarrow> browser_call \<Rightarrow> browser_call list
   \<Rightarrow> (browser_call list \<Rightarrow> 'a promise \<times> browser_call list) \<Rightarrow> 'a promise \<times> browser_call list" where
  "driver_call p c calls k =
     (case p of
        Pending \<Rightarrow> (Pending, calls @ [c])
      | Rejected e \<Rightarrow> (Rejected e, calls @ [c])
      | Resolved _ \<Rightarrow> k (calls @ [c]))"

definition browse_operations :: "string list" where
  "browse_operations =
     [''navigate'', ''screenshot'', ''getText'', ''click'', ''fillForm'', ''waitForElement'',
      ''executeScript'']"

definition web_item ::
  "host \<Rightarrow> puppeteer \<Rightarrow> nat \<Rightarrow> browser_call list \<Rightarrow> jobj promise \<times> browser_call list" where
  "web_item h pp i calls =
     (case getNodeParameter h ''operation'' i of
        Inl e \<Rightarrow> (Rejected e, calls)
      | Inr operation \<Rightarrow>
          if operation \<in> set browse_operations
          then (await (pageOperation pp operation i) (\<lambda>result.
                  Resolved (spread [(''operation'', JStr operation)] result)),
                calls @ [PageOperation operation i])
          else (Rejected (NodeOperationError h (''Unknown operation: '' @ operation)), calls))"

fun web_loop ::
  "host \<Rightarrow> puppeteer \<Rightarrow> nat list \<Rightarrow> jobj list \<Rightarrow> browser_call list
   \<Rightarrow> jobj list promise \<times> browser_call list" where
  "web_loop h pp [] returnData calls = (Resolved returnData, calls)"
| "web_loop h pp (i # rest) returnData calls =
     (case web_item h pp i calls of
        (Resolved entry, calls') \<Rightarrow> web_loop h pp rest (returnData @ [entry]) calls'
      | (Rejected e, calls') \<Rightarrow>
          (if continueOnFail h
           then web_loop h pp rest (returnData @ [error_entry e]) calls'
           else (Rejected e, calls'))
      | (Pending, calls') \<Rightarrow> (Pending, calls'))"

text \<open>The work of one item, without the record of the driver calls.\<close>

definition web_work :: "host \<Rightarrow> puppeteer \<Rightarrow> nat \<Rightarrow> jobj promise" where
  "web_work h pp i = fst (web_item h pp i [])"

text \<open>A later record of driver calls extends an earlier one without closing the
  browser.\<close>

definition extends_open :: "browser_call list \<Rightarrow> browser_call list \<Rightarrow> bool" where
  "extends_open calls calls' \<longleftrightarrow> (\<exists>more. calls' = calls @ more \<and> BrowserClose \<notin> set more)"

text \<open>The \<^verbatim>\<open>try\<close> block after the launch.\<close>

definition web_body ::
  "host \<Rightarrow> puppeteer \<Rightarrow> browser_options \<Rightarrow> browser_call list
   \<Rightarrow> jobj list promise \<times> browser_call list" where
  "web_body h pp browserOptions calls =
     driver_call (newPage pp) NewPage calls (\<lambda>calls.
       (if truthy (viewportWidth browserOptions) \<or> truthy (viewportHeight browserOptions)
        then driver_call
               (setViewport pp (or_default (viewportWidth browserOptions) 1280)
                               (or_default (viewportHeight browserOptions) 720))
               (SetViewport (or_default (viewportWidth browserOptions) 1280)
                            (or_default (viewportHeight browserOptions) 720)) calls
        else (\<lambda>k. k calls)) (\<lambda>calls.
       (case userAgent browserOptions of
          Some ua \<Rightarrow>
            if ua \<noteq> [] then driver_call (setUserAgent pp ua) (SetUserAgent ua) calls
            else (\<lambda>k. k calls)
        | None \<Rightarrow> (\<lambda>k. k calls)) (\<lambda>calls.
       web_loop h pp [0 ..< length (getInputData h)] [] calls)))"

text \<open>The \<^verbatim>\<open>finally\<close> block, entered with \<^verbatim>\<open>browser\<close> set: it runs when the \<^verbatim>\<open>try\<close> block
  has completed or thrown; an error of \<^verbatim>\<open>browser.close()\<close> replaces the outcome.\<close>

definition finally_close ::
  "puppeteer \<Rightarrow> jobj list promise \<times> browser_call list \<Rightarrow> jobj list promise \<times> browser_call list" where
  "finally_close pp r =
     (case fst r of
        Pending \<Rightarrow> r
      | _ \<Rightarrow> (case browserClose pp of
                Resolved _ \<Rightarrow> (fst r, snd r @ [BrowserClose])
              | Rejected e \<Rightarrow> (Rejected e, snd r @ [BrowserClose])
              | Pending \<Rightarrow> (Pending, snd r @ [BrowserClose])))"

definition WebBrowseAgent_execute ::
  "host \<Rightarrow> puppeteer \<Rightarrow> jobj list promise \<times> browser_call list" where
  "WebBrowseAgent_execute h pp =
     (case getBrowserOptions h of
        Inl e \<Rightarrow> (Rejected e, [])
      | Inr browserOptions \<Rightarrow>
          (let headlessMode = (headless browserOptions \<noteq> Some False)
           in case launch pp headlessMode of
                Pending \<Rightarrow> (Pending, [Launch headlessMode])
              | Rejected e \<Rightarrow> (Rejected e, [Launch headlessMode])
              | Resolved _ \<Rightarrow> finally_close pp (web_body h pp browserOptions [Launch headlessMode])))"

text \<open>The browser can be set up and released: the options can be read and the driver
  calls around the item loop resolve.\<close>

definition browser_ready :: "host \<Rightarrow> puppeteer \<Rightarrow> bool" where
  "browser_ready h pp \<longleftrightarrow>
     (case getBrowserOptions h of
        Inl e \<Rightarrow> False
      | Inr browserOptions \<Rightarrow>
          launch pp (headless browserOptions \<noteq> Some False) = Resolved () \<and>
          newPage pp = Resolved () \<and>
          setViewport pp (or_default (viewportWidth browserOptions) 1280)
                         (or_default (viewportHeight browserOptions) 720) = Resolved () \<and>
          (case userAgent browserOptions of
             None \<Rightarrow> True
           | Some ua \<Rightarrow> setUserAgent pp ua = Resolved ()) \<and>
          browserClose pp = Resolved ())"

section \<open>Example environments\<close>

text \<open>A host whose string parameters come from a table (a missing name makes the lookup
  throw), with \<open>n\<close> empty input items, every number parameter 30 and no browser option
  set. Its operation errors keep the description as their message.\<close>

definition example_host :: "(string \<times> string) list \<Rightarrow> nat \<Rightarrow> bool \<Rightarrow> host" where
  "example_host params n cont =
     \<lparr>getInputData = replicate n [],
      continueOnFail = cont,
      getNodeParameter = (\<lambda>name i. case map_of params name of
                            Some v \<Rightarrow> Inr v
                          | None \<Rightarrow> Inl (''Could not get parameter: '' @ name)),
      getNumberParameter = (\<lambda>name i. Inr 30),
      getBrowserOptions = Inr \<lparr>headless = None, userAgent = None, viewportWidth = None,
                               viewportHeight = None\<rparr>,
      NodeOperationError = (\<lambda>description. description)\<rparr>"

text \<open>The same host with one parameter table per input item.\<close>

definition example_batch :: "(string \<times> string) list list \<Rightarrow> bool \<Rightarrow> host" where
  "example_batch rows cont =
     \<lparr>getInputData = map (\<lambda>row. []) rows,
      continueOnFail = cont,
      getNodeParameter = (\<lambda>name i.
        case (if i < length rows then map_of (rows ! i) name else None) of
          Some v \<Rightarrow> Inr v
        | None \<Rightarrow> Inl (''Could not get parameter: '' @ name)),
      getNumberParameter = (\<lambda>name i. Inr 30),
      getBrowserOptions = Inr \<lparr>headless = None, userAgent = None, viewportWidth = None,
                               viewportHeight = None\<rparr>,
      NodeOperationError = (\<lambda>description. description)\<rparr>"

text \<open>Division and multiplication without rounding. Double arithmetic gives the same
  results wherever the exact quotient and product are doubles, as for the heap sizes of
  the examples below: a quotient with a power of two as divisor, and its hundredfold.\<close>

definition exact_divide :: "nat \<Rightarrow> nat \<Rightarrow> number" where
  "exact_divide a b =
     (if b = 0 then (if a = 0 then NaN else PosInfinity) else Num (real a / real b))"

fun exact_times :: "number \<Rightarrow> real \<Rightarrow> number" where
  "exact_times (Num x) c = Num (x * c)"
| "exact_times PosInfinity c = (if c > 0 then PosInfinity else NaN)"
| "exact_times NaN c = NaN"

definition example_runtime :: runtime where
  "example_runtime =
     \<lparr>JSON_parse = (\<lambda>s. if s = ''{}'' then Inr (JObj []) else Inl ''Unexpected token''),
      random_id = ''k3x9q'',
      now_iso = ''2024-01-01T00:00:00.000Z'',
      double_divide = exact_divide,
      double_times = exact_times\<rparr>"

text \<open>A regular expression engine for patterns without metacharacters: such a pattern
  matches a text, ignoring case, when it occurs in it.\<close>

definition lower :: "char \<Rightarrow> char" where
  "lower c = (case map_of (zip ''ABCDEFGHIJKLMNOPQRSTUVWXYZ'' ''abcdefghijklmnopqrstuvwxyz'') c of
                Some l \<Rightarrow> l | None \<Rightarrow> c)"

fun starts_with :: "string \<Rightarrow> string \<Rightarrow> bool" where
  "starts_with [] s = True"
| "starts_with (p # ps) [] = False"
| "starts_with (p # ps) (c # cs) = (p = c \<and> starts_with ps cs)"

fun contains :: "string \<Rightarrow> string \<Rightarrow> bool" where
  "contains p [] = (p = [])"
| "contains p (c # cs) = (starts_with p (c # cs) \<or> contains p cs)"

definition example_regexp :: regexp_engine where
  "example_regexp pattern =
     (if \<exists>c\<in>set pattern. c \<in> set ''^$.|?*+()[]{}''
      then Inl (''Invalid regular expression: /'' @ pattern @ ''/'')
      else Inr (\<lambda>s. contains (map lower pattern) (map lower s)))"

text \<open>Two lines of \<^verbatim>\<open>ps aux\<close> output.\<close>

definition example_listing :: string where
  "example_listing =
     ''root 101 0.0 0.1 100 200 ? Ss 10:00 0:01 /usr/bin/Node server.js'' @ [CHR 0x0A] @
     ''root 102 0.0 0.1 100 200 ? Ss 10:00 0:01 /sbin/init'' @ [CHR 0x0A]"

text \<open>A browser driver whose calls all resolve, except the page operation of item 0.\<close>

definition example_puppeteer :: puppeteer where
  "example_puppeteer =
     \<lparr>launch = (\<lambda>headlessMode. Resolved ()),
      newPage = Resolved (),
      setViewport = (\<lambda>width height. Resolved ()),
      setUserAgent = (\<lambda>ua. Resolved ()),
      pageOperation = (\<lambda>operation i.
        if i = 0 then Rejected ''Navigation failed: net::ERR_NAME_NOT_RESOLVED''
        else Resolved [(''success'', JBool True)]),
      browserClose = Resolved ()\<rparr>"

section \<open>Properties of promises\<close>

lemma resolve_settled [simp]: "p \<noteq> Pending \<Longrightarrow> resolve v p = p"
  by (cases p) (simp_all add: resolve_def)

lemma reject_settled [simp]: "p \<noteq> Pending \<Longrightarrow> reject e p = p"
  by (cases p) (simp_all add: reject_def)

lemma resolve_pending [simp]: "resolve v Pending = Resolved v"
  by (simp add: resolve_def)

lemma reject_pending [simp]: "reject e Pending = Rejected e"
  by (simp add: reject_def)

section \<open>Terminal Agent: a completed local command\<close>

lemma local_handle_settled:
  "l_promise s \<noteq> Pending \<Longrightarrow> l_promise (local_handle h s ev) = l_promise s"
  by (cases ev) simp_all

lemma local_run_settled:
  "l_promise s \<noteq> Pending \<Longrightarrow> l_promise (foldl (local_handle h) s evs) = l_promise s"
  by (induction evs arbitrary: s) (simp_all add: local_handle_settled)

lemma local_run_data:
  "\<forall>e\<in>set evs. \<not> is_settling e \<Longrightarrow>
   foldl (local_handle h) s evs =
     s\<lparr>l_stdout := l_stdout s @ stdout_chunks evs, l_stderr := l_stderr s @ stderr_chunks evs\<rparr>"
proof (induction evs arbitrary: s)
  case Nil
  then show ?case by simp
next
  case (Cons ev evs)
  then show ?case by (cases ev) simp_all
qed

text \<open>
  C4. A local command whose child process completes: the child emits data events and
  then close, with no process-level error event before the close. Whatever follows the
  close, the operation resolves with the exit code, the trimmed stdout, the trimmed
  stderr and a success flag that holds exactly when the exit code is 0.
\<close>

theorem executeLocalCommand_completed:
  assumes param: "getNodeParameter h ''workingDirectory'' itemIndex = Inr workingDirectory"
    and events: "spawn ''sh'' [''-c'', command]
                   (if workingDirectory \<noteq> [] then Some workingDirectory else None)
                 = Inr (evs @ Close code # rest)"
    and running: "\<forall>e\<in>set evs. \<not> is_settling e"
  shows "executeLocalCommand h spawn command itemIndex =
           Resolved \<lparr>exitCode = code, stdout = trim (stdout_chunks evs),
                     stderr = trim (stderr_chunks evs), success = (code = Some 0)\<rparr>"
proof -
  let ?s = "foldl (local_handle h) local_init evs"
  have before: "?s = local_init\<lparr>l_stdout := stdout_chunks evs, l_stderr := stderr_chunks evs\<rparr>"
    using local_run_data [OF running, where s = local_init] by (simp add: local_init_def)
  have "l_promise (local_handle h ?s (Close code)) =
          Resolved \<lparr>exitCode = code, stdout = trim (stdout_chunks evs),
                    stderr = trim (stderr_chunks evs), success = (code = Some 0)\<rparr>"
    unfolding before by (simp add: local_init_def)
  then have "l_promise (foldl (local_handle h) local_init (evs @ Close code # rest)) =
          Resolved \<lparr>exitCode = code, stdout = trim (stdout_chunks evs),
                    stderr = trim (stderr_chunks evs), success = (code = Some 0)\<rparr>"
    by (simp add: local_run_settled)
  then show ?thesis
    using param events by (simp add: executeLocalCommand_def lookup_def)
qed

theorem executeLocalCommand_completed_witness:
  "executeLocalCommand (example_host [(''workingDirectory'', ''/tmp'')] 1 False)
     (\<lambda>cmd args cwd. Inr [StdoutData '' hi'', StderrData ''warn  '', StdoutData [CHR 0x0A],
                            Close (Some 2), StdoutData ''late''])
     ''echo hi; exit 2'' 0
   = Resolved \<lparr>exitCode = Some 2, stdout = ''hi'', stderr = ''warn'', success = False\<rparr>"
  using executeLocalCommand_completed
    [of "example_host [(''workingDirectory'', ''/tmp'')] 1 False" 0 "''/tmp''"
        "\<lambda>cmd args cwd. Inr [StdoutData '' hi'', StderrData ''warn  '', StdoutData [CHR 0x0A],
                               Close (Some 2), StdoutData ''late'']"
        "''echo hi; exit 2''"
        "[StdoutData '' hi'', StderrData ''warn  '', StdoutData [CHR 0x0A]]"
        "Some 2" "[StdoutData ''late'']"]
  by (simp add: example_host_def trim_def isWhiteSpace_def)

section \<open>Hub Monitor: memory classification\<close>

text \<open>
  C3. For every finite usage value, the status of the memory check is "ok" up to 70,
  "warning" above 70 and up to 90, and "critical" above 90; in particular 70 is "ok",
  70.1 is "warning", 90 is "warning" and 90.1 is "critical". The status field of
  \<^verbatim>\<open>checkMemoryUsage\<close> is this classification of the unrounded usage.
\<close>

theorem usage_status_thresholds:
  "(u \<le> 70 \<longrightarrow> usage_status (Num u) = ''ok'') \<and>
   (70 < u \<and> u \<le> 90 \<longrightarrow> usage_status (Num u) = ''warning'') \<and>
   (90 < u \<longrightarrow> usage_status (Num u) = ''critical'') \<and>
   usage_status (Num 70) = ''ok'' \<and> usage_status (Num 70.1) = ''warning'' \<and>
   usage_status (Num 90) = ''warning'' \<and> usage_status (Num 90.1) = ''critical'' \<and>
   m_status (checkMemoryUsage rt totalMem) = usage_status (raw_usage rt totalMem)"
  by (simp add: usage_status_def checkMemoryUsage_def Let_def)

theorem usage_status_thresholds_witness:
  "usage_status (Num 50) = ''ok'' \<and> usage_status (Num 80.5) = ''warning'' \<and>
   usage_status (Num 99) = ''critical'' \<and>
   m_status (checkMemoryUsage example_runtime \<lparr>heapTotal = 1024, heapUsed = 973\<rparr>) = ''critical''"
  using usage_status_thresholds [of 50 example_runtime "\<lparr>heapTotal = 1024, heapUsed = 973\<rparr>"]
    usage_status_thresholds [of "80.5" example_runtime "\<lparr>heapTotal = 1024, heapUsed = 973\<rparr>"]
    usage_status_thresholds [of 99 example_runtime "\<lparr>heapTotal = 1024, heapUsed = 973\<rparr>"]
  by (simp add: raw_usage_def example_runtime_def exact_divide_def usage_status_def)

text \<open>
  C10. In the record of the memory check the usage field is the rounded percentage (the
  nearest integer, halves upwards) and the status field is the classification of the
  unrounded percentage, for every heap state. So whenever the unrounded percentage lies
  strictly between 70 and 70.5, the record reports usage 70 together with status
  "warning", although the classification of the reported usage 70 is "ok"; likewise
  strictly between 90 and 90.5 it reports usage 90 together with status "critical",
  although the classification of 90 is "warning".
\<close>

theorem memory_usage_rounded_status_unrounded:
  "m_usage (checkMemoryUsage rt totalMem) = Math_round (raw_usage rt totalMem) \<and>
   m_status (checkMemoryUsage rt totalMem) = usage_status (raw_usage rt totalMem) \<and>
   (raw_usage rt totalMem = Num u \<longrightarrow>
      (\<exists>n::int. m_usage (checkMemoryUsage rt totalMem) = Num (of_int n) \<and>
                of_int n - 1 / 2 \<le> u \<and> u < of_int n + 1 / 2)) \<and>
   (raw_usage rt totalMem = Num u \<and> 70 < u \<and> u < 70.5 \<longrightarrow>
      m_usage (checkMemoryUsage rt totalMem) = Num 70 \<and>
      m_status (checkMemoryUsage rt totalMem) = ''warning'' \<and>
      usage_status (m_usage (checkMemoryUsage rt totalMem)) = ''ok'') \<and>
   (raw_usage rt totalMem = Num u \<and> 90 < u \<and> u < 90.5 \<longrightarrow>
      m_usage (checkMemoryUsage rt totalMem) = Num 90 \<and>
      m_status (checkMemoryUsage rt totalMem) = ''critical'' \<and>
      usage_status (m_usage (checkMemoryUsage rt totalMem)) = ''warning'')"
proof -
  have rounded: "m_usage (checkMemoryUsage rt totalMem) = Math_round (raw_usage rt totalMem)"
    by (simp add: checkMemoryUsage_def Let_def)
  have classified: "m_status (checkMemoryUsage rt totalMem) = usage_status (raw_usage rt totalMem)"
    by (simp add: checkMemoryUsage_def Let_def)
  have nearest: "\<exists>n::int. m_usage (checkMemoryUsage rt totalMem) = Num (of_int n) \<and>
                of_int n - 1 / 2 \<le> u \<and> u < of_int n + 1 / 2"
    if raw: "raw_usage rt totalMem = Num u"
  proof -
    have "of_int (round u) - 1 / 2 \<le> u" and "u < of_int (round u) + 1 / 2"
      using of_int_round_le [of u] of_int_round_gt [of u] by simp_all
    then show ?thesis
      using raw rounded by (intro exI [of _ "round u"]) simp
  qed
  have low: "m_usage (checkMemoryUsage rt totalMem) = Num 70 \<and>
      m_status (checkMemoryUsage rt totalMem) = ''warning'' \<and>
      usage_status (m_usage (checkMemoryUsage rt totalMem)) = ''ok''"
    if "raw_usage rt totalMem = Num u \<and> 70 < u \<and> u < 70.5"
  proof -
    have "round u = 70"
      using that by (intro round_unique) simp_all
    then show ?thesis
      using that rounded classified by (simp add: usage_status_def)
  qed
  have high: "m_usage (checkMemoryUsage rt totalMem) = Num 90 \<and>
      m_status (checkMemoryUsage rt totalMem) = ''critical'' \<and>
      usage_status (m_usage (checkMemoryUsage rt totalMem)) = ''warning''"
    if "raw_usage rt totalMem = Num u \<and> 90 < u \<and> u < 90.5"
  proof -
    have "round u = 90"
      using that by (intro round_unique) simp_all
    then show ?thesis
      using that rounded classified by (simp add: usage_status_def)
  qed
  show ?thesis
    using rounded classified nearest low high by blast
qed

theorem memory_usage_rounded_status_unrounded_witness:
  "raw_usage example_runtime \<lparr>heapTotal = 1073741824, heapUsed = 756023296\<rparr> =
     Num 70.41015625 \<and>
   m_usage (checkMemoryUsage example_runtime \<lparr>heapTotal = 1073741824, heapUsed = 756023296\<rparr>) =
     Num 70 \<and>
   m_status (checkMemoryUsage example_runtime \<lparr>heapTotal = 1073741824, heapUsed = 756023296\<rparr>) =
     ''warning'' \<and>
   usage_status (Num 70) = ''ok'' \<and>
   raw_usage example_runtime \<lparr>heapTotal = 1073741824, heapUsed = 966787072\<rparr> =
     Num 90.0390625 \<and>
   m_usage (checkMemoryUsage example_runtime \<lparr>heapTotal = 1073741824, heapUsed = 966787072\<rparr>) =
     Num 90 \<and>
   m_status (checkMemoryUsage example_runtime \<lparr>heapTotal = 1073741824, heapUsed = 966787072\<rparr>) =
     ''critical'' \<and>
   usage_status (Num 90) = ''warning'' \<and>
   raw_usage example_runtime \<lparr>heapTotal = 1073741824, heapUsed = 536870912\<rparr> = Num 50 \<and>
   m_usage (checkMemoryUsage example_runtime \<lparr>heapTotal = 1073741824, heapUsed = 536870912\<rparr>) =
     Num 50 \<and>
   m_status (checkMemoryUsage example_runtime \<lparr>heapTotal = 1073741824, heapUsed = 536870912\<rparr>) =
     ''ok''"
proof -
  have low: "raw_usage example_runtime \<lparr>heapTotal = 1073741824, heapUsed = 756023296\<rparr> =
               Num 70.41015625"
    by (simp add: raw_usage_def example_runtime_def exact_divide_def)
  have high: "raw_usage example_runtime \<lparr>heapTotal = 1073741824, heapUsed = 966787072\<rparr> =
                Num 90.0390625"
    by (simp add: raw_usage_def example_runtime_def exact_divide_def)
  have mid: "raw_usage example_runtime \<lparr>heapTotal = 1073741824, heapUsed = 536870912\<rparr> =
               Num 50"
    by (simp add: raw_usage_def example_runtime_def exact_divide_def)
  have at_low:
    "m_usage (checkMemoryUsage example_runtime \<lparr>heapTotal = 1073741824, heapUsed = 756023296\<rparr>) =
       Num 70 \<and>
     m_status (checkMemoryUsage example_runtime \<lparr>heapTotal = 1073741824, heapUsed = 756023296\<rparr>) =
       ''warning''"
    using low memory_usage_rounded_status_unrounded
        [of example_runtime "\<lparr>heapTotal = 1073741824, heapUsed = 756023296\<rparr>" "70.41015625",
         THEN conjunct2, THEN conjunct2, THEN conjunct2, THEN conjunct1]
    by simp
  have at_high:
    "m_usage (checkMemoryUsage example_runtime \<lparr>heapTotal = 1073741824, heapUsed = 966787072\<rparr>) =
       Num 90 \<and>
     m_status (checkMemoryUsage example_runtime \<lparr>heapTotal = 1073741824, heapUsed = 966787072\<rparr>) =
       ''critical''"
    using high memory_usage_rounded_status_unrounded
        [of example_runtime "\<lparr>heapTotal = 1073741824, heapUsed = 966787072\<rparr>" "90.0390625",
         THEN conjunct2, THEN conjunct2, THEN conjunct2, THEN conjunct2]
    by simp
  have at_mid:
    "m_usage (checkMemoryUsage example_runtime \<lparr>heapTotal = 1073741824, heapUsed = 536870912\<rparr>) =
       Num 50 \<and>
     m_status (checkMemoryUsage example_runtime \<lparr>heapTotal = 1073741824, heapUsed = 536870912\<rparr>) =
       ''ok''"
    using mid
      memory_usage_rounded_status_unrounded
        [of example_runtime "\<lparr>heapTotal = 1073741824, heapUsed = 536870912\<rparr>" 50,
         THEN conjunct1]
      memory_usage_rounded_status_unrounded
        [of example_runtime "\<lparr>heapTotal = 1073741824, heapUsed = 536870912\<rparr>" 50,
         THEN conjunct2, THEN conjunct1]
    by (simp add: usage_status_def)
  show ?thesis
    using low high mid at_low at_high at_mid by (simp add: usage_status_def)
qed

section \<open>Terminal Agent: outcomes of the SSH path\<close>

lemma resolve_not_pending [simp]: "resolve v p \<noteq> Pending"
  by (cases p) (simp_all add: resolve_def)

lemma reject_not_pending [simp]: "reject e p \<noteq> Pending"
  by (cases p) (simp_all add: reject_def)

lemma ssh_handle_settled:
  "r_promise s \<noteq> Pending \<Longrightarrow> r_promise (ssh_handle h timeout s ev) = r_promise s"
  by (cases ev) (simp_all split: option.splits)

lemma ssh_run_settled:
  "r_promise s \<noteq> Pending \<Longrightarrow> r_promise (foldl (ssh_handle h timeout) s evs) = r_promise s"
  by (induction evs arbitrary: s) (simp_all add: ssh_handle_settled)

text \<open>Before the connection is ready the timer is armed: the timeout rejects.\<close>

lemma ssh_timeout_before_ready:
  "r_promise (ssh_run h timeout (TimerElapsed # evs)) =
     Rejected (NodeOperationError h
                 (''SSH connection timeout after '' @ show_nat timeout @ '' seconds''))"
  by (simp add: ssh_run_def ssh_init_def ssh_run_settled)

text \<open>Once the connection is ready and the command runs, the timer is cleared: as long
  as the stream only delivers data, the promise stays pending, whether the timeout
  passes or not.\<close>

lemma ssh_waiting_step:
  assumes "r_stream s" and "\<not> r_timer s" and "\<not> r_exec s" and "r_promise s = Pending"
    and "ev = TimerElapsed \<or> (\<exists>d. ev = StreamData d) \<or> (\<exists>d. ev = StreamStderrData d)"
  shows "r_stream (ssh_handle h timeout s ev) \<and> \<not> r_timer (ssh_handle h timeout s ev) \<and>
         \<not> r_exec (ssh_handle h timeout s ev) \<and> r_promise (ssh_handle h timeout s ev) = Pending"
  using assms by auto

lemma ssh_waiting_run:
  assumes "r_stream s" and "\<not> r_timer s" and "\<not> r_exec s" and "r_promise s = Pending"
    and "\<forall>ev\<in>set evs. ev = TimerElapsed \<or> (\<exists>d. ev = StreamData d) \<or> (\<exists>d. ev = StreamStderrData d)"
  shows "r_promise (foldl (ssh_handle h timeout) s evs) = Pending"
  using assms
proof (induction evs arbitrary: s)
  case Nil
  then show ?case by simp
next
  case (Cons ev evs)
  have step: "r_stream (ssh_handle h timeout s ev) \<and> \<not> r_timer (ssh_handle h timeout s ev) \<and>
         \<not> r_exec (ssh_handle h timeout s ev) \<and> r_promise (ssh_handle h timeout s ev) = Pending"
    using Cons.prems by (intro ssh_waiting_step) simp_all
  show ?case
    using step Cons.prems(5) by (simp add: Cons.IH)
qed

lemma ssh_no_timeout_after_ready:
  assumes "\<forall>ev\<in>set evs. ev = TimerElapsed \<or> (\<exists>d. ev = StreamData d) \<or> (\<exists>d. ev = StreamStderrData d)"
  shows "r_promise (ssh_run h timeout (Ready # ExecCallback None # evs)) = Pending"
  unfolding ssh_run_def using assms
  by (simp add: ssh_init_def ssh_waiting_run)

text \<open>
  C1. An SSH command that does not respond within the configured timeout should settle
  with a timeout error. In \<^verbatim>\<open>executeRemoteCommand\<close> the timer is cleared by the ready
  handler, so it bounds the connection set-up only: with a timeout of 30 seconds, a
  session that becomes ready, starts the command, delivers some output and then nothing
  more while the timeout passes leaves the invocation pending.
\<close>

theorem executeRemoteCommand_pending_after_timeout:
  "executeRemoteCommand
     (example_host [(''host'', ''10.0.0.5''), (''username'', ''root''),
                    (''authMethod'', ''password''), (''password'', ''secret''),
                    (''privateKey'', [])] 1 False)
     (\<lambda>config command. Inr [Ready, ExecCallback None, StreamData ''partial'', TimerElapsed])
     ''sleep 3600'' 0 30
   = Pending"
  by (simp add: executeRemoteCommand_def example_host_def lookup_def ssh_run_def ssh_init_def)

section \<open>MCP Connector: the WebSocket call\<close>

lemma ws_handle_settled:
  "w_promise s \<noteq> Pending \<Longrightarrow>
   w_promise (ws_handle h rt operation itemIndex timeout s ev) = w_promise s"
  by (cases ev) (simp_all split: sum.splits)

lemma ws_run_settled:
  "w_promise s \<noteq> Pending \<Longrightarrow>
   w_promise (foldl (ws_handle h rt operation itemIndex timeout) s evs) = w_promise s"
  by (induction evs arbitrary: s) (simp_all add: ws_handle_settled)

text \<open>The WebSocket path keeps its timer until the first response: a connection that
  opens and then stays silent is rejected when the timeout passes.\<close>

lemma ws_timeout_settles:
  "buildMCPMessage h rt operation itemIndex = Inr m \<Longrightarrow>
   w_promise (ws_run h rt operation itemIndex timeout (WsOpen # WsTimer # evs)) =
     Rejected (NodeOperationError h
                 (''WebSocket operation timeout after '' @ show_nat timeout @ '' seconds''))"
  by (simp add: ws_run_def ws_init_def ws_run_settled)

text \<open>While the call is pending, no response has been received and the timer is armed.\<close>

lemma ws_handle_waiting:
  assumes "w_promise s = Pending \<longrightarrow> \<not> w_responseReceived s \<and> w_timer s"
  shows "w_promise (ws_handle h rt operation itemIndex timeout s ev) = Pending \<longrightarrow>
         \<not> w_responseReceived (ws_handle h rt operation itemIndex timeout s ev) \<and>
         w_timer (ws_handle h rt operation itemIndex timeout s ev)"
  using assms by (cases ev; cases "w_promise s") (auto split: sum.splits)

lemma ws_run_waiting:
  assumes "w_promise s = Pending \<longrightarrow> \<not> w_responseReceived s \<and> w_timer s"
  shows "w_promise (foldl (ws_handle h rt operation itemIndex timeout) s evs) = Pending \<longrightarrow>
         \<not> w_responseReceived (foldl (ws_handle h rt operation itemIndex timeout) s evs) \<and>
         w_timer (foldl (ws_handle h rt operation itemIndex timeout) s evs)"
  using assms
proof (induction evs arbitrary: s)
  case Nil
  then show ?case by simp
next
  case (Cons ev evs)
  show ?case
    using Cons.IH [OF ws_handle_waiting [OF Cons.prems]] by simp
qed

text \<open>The call is pending after a run of events exactly when nothing but open events
  arrived and the message could be built and sent: a message, an error, the timeout or
  an earlier close would have settled it.\<close>

lemma ws_pending_iff:
  "w_promise (ws_run h rt operation itemIndex timeout evs) = Pending \<longleftrightarrow>
     (\<forall>ev\<in>set evs. ev = WsOpen) \<and>
     (evs \<noteq> [] \<longrightarrow> (\<exists>m. buildMCPMessage h rt operation itemIndex = Inr m))"
proof (induction evs rule: rev_induct)
  case Nil
  then show ?case by (simp add: ws_run_def ws_init_def)
next
  case (snoc ev evs)
  let ?s = "ws_run h rt operation itemIndex timeout evs"
  have run: "ws_run h rt operation itemIndex timeout (evs @ [ev]) =
               ws_handle h rt operation itemIndex timeout ?s ev"
    by (simp add: ws_run_def)
  have inv: "w_promise ?s = Pending \<longrightarrow> \<not> w_responseReceived ?s \<and> w_timer ?s"
    using ws_run_waiting [of ws_init h rt operation itemIndex timeout evs]
    by (simp add: ws_run_def ws_init_def)
  show ?case
  proof (cases "w_promise ?s = Pending")
    case True
    then show ?thesis
      using inv snoc.IH unfolding run
      by (cases ev) (auto split: sum.splits)
  next
    case False
    then have "w_promise (ws_handle h rt operation itemIndex timeout ?s ev) \<noteq> Pending"
      by (simp add: ws_handle_settled)
    then show ?thesis
      using False snoc.IH unfolding run by auto
  qed
qed

text \<open>
  C6. A WebSocket call of the MCP Connector whose connection closes while the call is
  still pending (no message received, no error, no timeout, no failed send before the
  close) is rejected with the error "WebSocket connection closed unexpectedly",
  whatever follows the close.
\<close>

theorem ws_closed_before_message:
  assumes events: "socket serverUrl = Inr (evs @ WsClose # rest)"
    and waiting: "w_promise (ws_run h rt operation itemIndex timeout evs) = Pending"
  shows "executeWebSocketOperation h rt socket serverUrl operation itemIndex timeout =
           Rejected (NodeOperationError h ''WebSocket connection closed unexpectedly'')"
proof -
  let ?s = "ws_run h rt operation itemIndex timeout evs"
  have "\<not> w_responseReceived ?s"
    using ws_run_waiting [of ws_init h rt operation itemIndex timeout evs] waiting
    by (simp add: ws_run_def ws_init_def)
  then have "w_promise (ws_handle h rt operation itemIndex timeout ?s WsClose) =
               Rejected (NodeOperationError h ''WebSocket connection closed unexpectedly'')"
    using waiting by simp
  then have "w_promise (ws_run h rt operation itemIndex timeout (evs @ WsClose # rest)) =
               Rejected (NodeOperationError h ''WebSocket connection closed unexpectedly'')"
    by (simp add: ws_run_def ws_run_settled)
  then show ?thesis
    using events by (simp add: executeWebSocketOperation_def lookup_def)
qed

theorem ws_closed_before_message_witness:
  "executeWebSocketOperation (example_host [] 1 False) example_runtime
     (\<lambda>url. Inr [WsOpen, WsClose, WsTimer]) ''ws://localhost:8080'' ''listTools'' 0 30
   = Rejected ''WebSocket connection closed unexpectedly''"
  using ws_closed_before_message
    [of "\<lambda>url. Inr [WsOpen, WsClose, WsTimer]" "''ws://localhost:8080''" "[WsOpen]" "[WsTimer]"
        "example_host [] 1 False" example_runtime "''listTools''" 0 30]
  by (simp add: ws_run_def ws_init_def buildMCPMessage_def example_host_def)

section \<open>MCP Connector: the HTTP path\<close>

text \<open>
  C9. An MCP Connector operation routed over the HTTP connection type issues no HTTP
  request and, when the message can be built, returns the fixed placeholder response,
  whatever the server URL, the operation and the timeout; the connector routes every
  connection type other than "websocket" to this path.
\<close>

theorem http_placeholder:
  assumes "buildMCPMessage h rt operation itemIndex = Inr message"
  shows "executeHttpOperation h rt serverUrl operation itemIndex timeout =
           (Resolved [(''success'', JBool True),
                      (''response'', JObj [(''message'', JStr ''HTTP MCP not fully implemented yet'')]),
                      (''timestamp'', JStr (now_iso rt))], []) \<and>
         (getNodeParameter h ''connectionType'' itemIndex = Inr connectionType \<and>
          connectionType \<noteq> ''websocket'' \<and>
          getNodeParameter h ''serverUrl'' itemIndex = Inr serverUrl \<and>
          getNodeParameter h ''operation'' itemIndex = Inr operation \<and>
          getNumberParameter h ''timeout'' itemIndex = Inr timeout \<longrightarrow>
          mcp_item h rt socket itemIndex =
            Resolved (spread [(''operation'', JStr operation),
                              (''connectionType'', JStr connectionType),
                              (''serverUrl'', JStr serverUrl)]
                        [(''success'', JBool True),
                         (''response'', JObj [(''message'', JStr ''HTTP MCP not fully implemented yet'')]),
                         (''timestamp'', JStr (now_iso rt))]))"
  using assms by (simp add: executeHttpOperation_def mcp_item_def lookup_def await_def)

theorem http_placeholder_witness:
  "executeHttpOperation (example_host [] 1 False) example_runtime
     ''http://localhost:9999'' ''listTools'' 0 30 =
     (Resolved [(''success'', JBool True),
                (''response'', JObj [(''message'', JStr ''HTTP MCP not fully implemented yet'')]),
                (''timestamp'', JStr ''2024-01-01T00:00:00.000Z'')], []) \<and>
   mcp_item
     (example_host [(''connectionType'', ''http''), (''serverUrl'', ''http://localhost:9999''),
                    (''operation'', ''listTools'')] 1 False)
     example_runtime (\<lambda>url. Inr []) 0 =
     Resolved [(''operation'', JStr ''listTools''), (''connectionType'', JStr ''http''),
               (''serverUrl'', JStr ''http://localhost:9999''), (''success'', JBool True),
               (''response'', JObj [(''message'', JStr ''HTTP MCP not fully implemented yet'')]),
               (''timestamp'', JStr ''2024-01-01T00:00:00.000Z'')]"
  using http_placeholder
    [of "example_host [] 1 False" example_runtime "''listTools''" 0
        "JObj (spread (baseMessage example_runtime) [(''method'', JStr ''tools/list'')])"
        "''http://localhost:9999''" 30 "''http''" "\<lambda>url. Inr []"]
    http_placeholder
    [of "example_host [(''connectionType'', ''http''), (''serverUrl'', ''http://localhost:9999''),
                       (''operation'', ''listTools'')] 1 False" example_runtime "''listTools''" 0
        "JObj (spread (baseMessage example_runtime) [(''method'', JStr ''tools/list'')])"
        "''http://localhost:9999''" 30 "''http''" "\<lambda>url. Inr []"]
  by (simp add: buildMCPMessage_def example_host_def example_runtime_def spread_def)

section \<open>Exit codes and operation errors\<close>

lemma resolve_rejected_iff [simp]: "resolve v p = Rejected e \<longleftrightarrow> p = Rejected e"
  by (cases p) (simp_all add: resolve_def)















section \<open>Hub Monitor: the process list\<close>

lemma process_lines_matching:
  "\<forall>p\<in>set processes. test (proc_name p) \<Longrightarrow>
   \<forall>p\<in>set (process_lines (Some test) isWindows lines processes). test (proc_name p)"
proof (induction lines arbitrary: processes)
  case Nil
  then show ?case by simp
next
  case (Cons line lines)
  show ?case
  proof (cases "trim line = []")
    case True
    then show ?thesis using Cons by simp
  next
    case False
    obtain processName pid where parsed: "parse_line isWindows line = (processName, pid)"
      by (cases "parse_line isWindows line")
    show ?thesis
    proof (cases "processName \<noteq> [] \<and> test processName")
      case True
      have "\<forall>p\<in>set (processes @ [\<lparr>proc_name = processName, proc_pid = pid\<rparr>]). test (proc_name p)"
        using Cons.prems True by simp
      from Cons.IH [OF this] show ?thesis
        using False parsed True by simp
    next
      case no: False
      then show ?thesis
        using Cons.IH [OF Cons.prems] False parsed by auto
    qed
  qed
qed

text \<open>
  C7. For every listing output, every non-empty pattern and either platform: if the
  pattern compiles to a case-insensitive regular expression, \<^verbatim>\<open>parseProcessList\<close>
  returns a list and the name of every entry of it matches the expression; if the
  pattern does not compile, the constructor's error is thrown and no entry is returned.
\<close>

theorem parseProcessList_only_matching:
  assumes "pattern \<noteq> []"
  shows "(\<forall>test. RegExp_i pattern = Inr test \<longrightarrow>
            (\<exists>processes. parseProcessList RegExp_i output pattern isWindows = Inr processes \<and>
               (\<forall>p\<in>set processes. test (proc_name p)))) \<and>
         (\<forall>e. RegExp_i pattern = Inl e \<longrightarrow>
            parseProcessList RegExp_i output pattern isWindows = Inl e)"
proof (intro conjI allI impI)
  fix test
  assume compiled: "RegExp_i pattern = Inr test"
  have "\<forall>p\<in>set (process_lines (Some test) isWindows (split_on CHR 0x0A output) []).
          test (proc_name p)"
    by (rule process_lines_matching) simp
  then show "\<exists>processes. parseProcessList RegExp_i output pattern isWindows = Inr processes \<and>
               (\<forall>p\<in>set processes. test (proc_name p))"
    using assms compiled by (simp add: parseProcessList_def bindE_def Let_def)
next
  fix e
  assume "RegExp_i pattern = Inl e"
  then show "parseProcessList RegExp_i output pattern isWindows = Inl e"
    using assms by (simp add: parseProcessList_def bindE_def Let_def)
qed

theorem parseProcessList_only_matching_witness:
  "parseProcessList example_regexp example_listing ''node'' False =
     Inr [\<lparr>proc_name = ''/usr/bin/Node server.js'', proc_pid = ''101''\<rparr>] \<and>
   contains ''node'' (map lower ''/usr/bin/Node server.js'') \<and>
   parseProcessList example_regexp example_listing ''(node'' False =
     Inl ''Invalid regular expression: /(node/''"
  using parseProcessList_only_matching [of "''node''" example_regexp example_listing False]
    parseProcessList_only_matching [of "''(node''" example_regexp example_listing False]
  by (simp add: parseProcessList_def bindE_def Let_def example_regexp_def example_listing_def
      parse_line_def trim_def isWhiteSpace_def lower_def)

section \<open>Web Browse Agent: release of the browser\<close>

lemma extends_open_refl [simp]: "extends_open calls calls"
  by (simp add: extends_open_def)

lemma extends_open_trans:
  "extends_open a b \<Longrightarrow> extends_open b c \<Longrightarrow> extends_open a c"
  by (auto simp: extends_open_def)

lemma extends_open_snoc [simp]: "c \<noteq> BrowserClose \<Longrightarrow> extends_open calls (calls @ [c])"
  by (simp add: extends_open_def)

lemma web_item_open: "extends_open calls (snd (web_item h pp i calls))"
  by (simp add: web_item_def split: sum.splits)

lemma web_loop_open: "extends_open calls (snd (web_loop h pp rest returnData calls))"
proof (induction rest arbitrary: returnData calls)
  case Nil
  then show ?case by simp
next
  case (Cons i rest)
  obtain r calls' where item: "web_item h pp i calls = (r, calls')"
    by (cases "web_item h pp i calls")
  have step: "extends_open calls calls'"
    using web_item_open [of calls h pp i] item by simp
  show ?case
  proof (cases r)
    case Pending
    then show ?thesis using item step by simp
  next
    case (Resolved entry)
    then show ?thesis
      using item extends_open_trans [OF step Cons.IH] by simp
  next
    case (Rejected e)
    then show ?thesis
      using item step extends_open_trans [OF step Cons.IH] by simp
  qed
qed

lemma driver_call_open:
  assumes "c \<noteq> BrowserClose" and "\<And>calls'. extends_open calls' (snd (k calls'))"
  shows "extends_open calls (snd (driver_call p c calls k))"
proof (cases p)
  case (Resolved u)
  then show ?thesis
    using extends_open_trans [OF extends_open_snoc [OF assms(1)] assms(2) [of "calls @ [c]"]]
    by (simp add: driver_call_def)
qed (simp_all add: driver_call_def assms(1))

lemma web_body_open: "extends_open calls (snd (web_body h pp browserOptions calls))"
  unfolding web_body_def
  by (intro driver_call_open) (auto intro!: driver_call_open web_loop_open split: option.splits)

text \<open>
  C8. In every invocation of the Web Browse Agent in which the browser was launched, the
  browser is closed at the end of the batch, once and as the last call on the driver,
  on both paths out of the \<^verbatim>\<open>try\<close> block: when the set-up and all items complete, and
  when a failure of the set-up or of an item aborts the batch.
\<close>

theorem browser_closed_on_every_path:
  assumes options: "getBrowserOptions h = Inr browserOptions"
    and launched: "launch pp (headless browserOptions \<noteq> Some False) = Resolved ()"
    and settled: "fst (web_body h pp browserOptions [Launch (headless browserOptions \<noteq> Some False)])
                    \<noteq> Pending"
  shows "\<exists>calls. snd (WebBrowseAgent_execute h pp) =
                   Launch (headless browserOptions \<noteq> Some False) # calls @ [BrowserClose] \<and>
                 BrowserClose \<notin> set calls"
proof -
  let ?start = "[Launch (headless browserOptions \<noteq> Some False)]"
  let ?body = "web_body h pp browserOptions ?start"
  obtain more where more: "snd ?body = ?start @ more" "BrowserClose \<notin> set more"
    using web_body_open [of ?start h pp browserOptions] by (auto simp: extends_open_def)
  have "snd (finally_close pp ?body) = snd ?body @ [BrowserClose]"
    using settled by (cases "fst ?body"; cases "browserClose pp") (simp_all add: finally_close_def)
  then have "snd (WebBrowseAgent_execute h pp) = snd ?body @ [BrowserClose]"
    using options launched by (simp add: WebBrowseAgent_execute_def Let_def)
  then show ?thesis
    using more by simp
qed

theorem browser_closed_on_every_path_witness:
  "WebBrowseAgent_execute (example_host [(''operation'', ''navigate'')] 2 False) example_puppeteer =
     (Rejected ''Navigation failed: net::ERR_NAME_NOT_RESOLVED'',
      [Launch True, NewPage, PageOperation ''navigate'' 0, BrowserClose]) \<and>
   WebBrowseAgent_execute (example_host [(''operation'', ''navigate'')] 2 True) example_puppeteer =
     (Resolved [[(''error'', JStr ''Navigation failed: net::ERR_NAME_NOT_RESOLVED'')],
                [(''operation'', JStr ''navigate''), (''success'', JBool True)]],
      [Launch True, NewPage, PageOperation ''navigate'' 0, PageOperation ''navigate'' 1,
       BrowserClose])"
  using browser_closed_on_every_path
    [of "example_host [(''operation'', ''navigate'')] 2 False"
        "\<lparr>headless = None, userAgent = None, viewportWidth = None, viewportHeight = None\<rparr>"
        example_puppeteer]
    browser_closed_on_every_path
    [of "example_host [(''operation'', ''navigate'')] 2 True"
        "\<lparr>headless = None, userAgent = None, viewportWidth = None, viewportHeight = None\<rparr>"
        example_puppeteer]
  by (simp add: WebBrowseAgent_execute_def example_host_def example_puppeteer_def web_body_def
      driver_call_def truthy_def finally_close_def web_item_def browse_operations_def
      await_def spread_def error_entry_def upt_rec)

section \<open>Continue on failure\<close>

lemma run_items_pending:
  "run_items cont on_error work indices returnData = Pending \<Longrightarrow>
   \<exists>i\<in>set indices. work i = Pending"
proof (induction indices arbitrary: returnData)
  case Nil
  then show ?case by simp
next
  case (Cons i rest)
  then show ?case
    by (cases "work i") (auto split: if_splits)
qed

lemma run_items_continue:
  "run_items True on_error work indices returnData = Resolved out \<Longrightarrow>
   \<exists>new. out = returnData @ new \<and> one_entry_per_item on_error work indices new"
proof (induction indices arbitrary: returnData)
  case Nil
  then show ?case by (simp add: one_entry_per_item_def)
next
  case (Cons i rest)
  show ?case
  proof (cases "work i")
    case Pending
    then show ?thesis using Cons.prems by simp
  next
    case (Resolved entry)
    then obtain new where "out = (returnData @ [entry]) @ new"
      "one_entry_per_item on_error work rest new"
      using Cons.IH [of "returnData @ [entry]"] Cons.prems by auto
    then show ?thesis
      using Resolved by (simp add: one_entry_per_item_def)
  next
    case (Rejected e)
    then obtain new where "out = (returnData @ [on_error e]) @ new"
      "one_entry_per_item on_error work rest new"
      using Cons.IH [of "returnData @ [on_error e]"] Cons.prems by auto
    then show ?thesis
      using Rejected by (simp add: one_entry_per_item_def)
  qed
qed

lemma run_items_never_aborts:
  "run_items True on_error work indices returnData \<noteq> Rejected e"
proof (induction indices arbitrary: returnData)
  case Nil
  then show ?case by simp
next
  case (Cons i rest)
  then show ?case by (cases "work i") simp_all
qed

lemma run_items_keeps_every_item:
  "keeps_every_item on_error work n (run_items True on_error work [0 ..< n] [])"
proof (cases "run_items True on_error work [0 ..< n] []")
  case Pending
  then show ?thesis
    using run_items_pending [OF Pending] by (auto simp: keeps_every_item_def)
next
  case (Resolved out)
  then have entries: "one_entry_per_item on_error work [0 ..< n] out"
    using run_items_continue [OF Resolved] by simp
  then have "length out = n"
    by (auto simp: one_entry_per_item_def dest: list_all2_lengthD)
  then show ?thesis
    using Resolved entries by (simp add: keeps_every_item_def)
next
  case (Rejected e)
  then show ?thesis using run_items_never_aborts by blast
qed

text \<open>The loop of the Web Browse Agent is the common loop, with the driver calls recorded.\<close>

lemma web_item_fst: "fst (web_item h pp i calls) = web_work h pp i"
  by (simp add: web_item_def web_work_def split: sum.splits)

lemma web_loop_run_items:
  "fst (web_loop h pp indices returnData calls) =
     run_items (continueOnFail h) error_entry (web_work h pp) indices returnData"
proof (induction indices arbitrary: returnData calls)
  case Nil
  then show ?case by simp
next
  case (Cons i rest)
  obtain r calls' where item: "web_item h pp i calls = (r, calls')"
    by (cases "web_item h pp i calls")
  then have work: "web_work h pp i = r"
    using web_item_fst [of h pp i calls] by simp
  show ?case
    using item work Cons.IH by (cases r) simp_all
qed

lemma driver_call_resolved:
  "fst (driver_call p c calls k) = Resolved out \<Longrightarrow> \<exists>calls'. fst (k calls') = Resolved out"
  by (cases p) (auto simp: driver_call_def)

lemma web_body_resolved:
  assumes "fst (web_body h pp browserOptions calls) = Resolved out"
  shows "\<exists>calls'. fst (web_loop h pp [0 ..< length (getInputData h)] [] calls') = Resolved out"
proof -
  obtain c1 where "fst ((if truthy (viewportWidth browserOptions) \<or> truthy (viewportHeight browserOptions)
        then driver_call
               (setViewport pp (or_default (viewportWidth browserOptions) 1280)
                               (or_default (viewportHeight browserOptions) 720))
               (SetViewport (or_default (viewportWidth browserOptions) 1280)
                            (or_default (viewportHeight browserOptions) 720)) c1
        else (\<lambda>k. k c1)) (\<lambda>calls.
       (case userAgent browserOptions of
          Some ua \<Rightarrow>
            if ua \<noteq> [] then driver_call (setUserAgent pp ua) (SetUserAgent ua) calls
            else (\<lambda>k. k calls)
        | None \<Rightarrow> (\<lambda>k. k calls)) (\<lambda>calls.
       web_loop h pp [0 ..< length (getInputData h)] [] calls))) = Resolved out"
    using assms unfolding web_body_def by (blast dest: driver_call_resolved)
  then obtain c2 where "fst ((case userAgent browserOptions of
          Some ua \<Rightarrow>
            if ua \<noteq> [] then driver_call (setUserAgent pp ua) (SetUserAgent ua) c2
            else (\<lambda>k. k c2)
        | None \<Rightarrow> (\<lambda>k. k c2)) (\<lambda>calls.
       web_loop h pp [0 ..< length (getInputData h)] [] calls)) = Resolved out"
    by (auto split: if_splits dest: driver_call_resolved)
  then show ?thesis
    by (auto split: if_splits option.splits dest: driver_call_resolved)
qed

lemma web_execute_resolved:
  assumes "fst (WebBrowseAgent_execute h pp) = Resolved out"
  shows "\<exists>calls'. fst (web_loop h pp [0 ..< length (getInputData h)] [] calls') = Resolved out"
proof -
  obtain browserOptions where options: "getBrowserOptions h = Inr browserOptions"
    using assms by (cases "getBrowserOptions h") (simp_all add: WebBrowseAgent_execute_def)
  let ?start = "[Launch (headless browserOptions \<noteq> Some False)]"
  have "launch pp (headless browserOptions \<noteq> Some False) = Resolved ()"
    using assms options
    by (cases "launch pp (headless browserOptions \<noteq> Some False)")
       (simp_all add: WebBrowseAgent_execute_def Let_def)
  then have "fst (finally_close pp (web_body h pp browserOptions ?start)) = Resolved out"
    using assms options by (simp add: WebBrowseAgent_execute_def Let_def)
  then have "fst (web_body h pp browserOptions ?start) = Resolved out"
    by (cases "fst (web_body h pp browserOptions ?start)"; cases "browserClose pp")
       (simp_all add: finally_close_def)
  then show ?thesis by (rule web_body_resolved)
qed

text \<open>When the browser can be set up and released, the outcome of the Web Browse Agent
  is the outcome of its item loop.\<close>

lemma driver_call_ready: "driver_call (Resolved ()) c calls k = k (calls @ [c])"
  by (simp add: driver_call_def)

lemma web_body_ready:
  assumes "newPage pp = Resolved ()"
    and "setViewport pp (or_default (viewportWidth browserOptions) 1280)
                        (or_default (viewportHeight browserOptions) 720) = Resolved ()"
    and "case userAgent browserOptions of None \<Rightarrow> True | Some ua \<Rightarrow> setUserAgent pp ua = Resolved ()"
  shows "fst (web_body h pp browserOptions calls) =
           run_items (continueOnFail h) error_entry (web_work h pp)
             [0 ..< length (getInputData h)] []"
  using assms
  by (simp add: web_body_def driver_call_ready web_loop_run_items split: option.splits)

lemma web_execute_ready:
  assumes "browser_ready h pp"
  shows "fst (WebBrowseAgent_execute h pp) =
           run_items (continueOnFail h) error_entry (web_work h pp)
             [0 ..< length (getInputData h)] []"
proof -
  obtain browserOptions where options: "getBrowserOptions h = Inr browserOptions"
    using assms by (cases "getBrowserOptions h") (simp_all add: browser_ready_def)
  let ?start = "[Launch (headless browserOptions \<noteq> Some False)]"
  let ?loop = "run_items (continueOnFail h) error_entry (web_work h pp)
                 [0 ..< length (getInputData h)] []"
  have ready: "launch pp (headless browserOptions \<noteq> Some False) = Resolved ()"
    "newPage pp = Resolved ()"
    "setViewport pp (or_default (viewportWidth browserOptions) 1280)
                    (or_default (viewportHeight browserOptions) 720) = Resolved ()"
    "case userAgent browserOptions of None \<Rightarrow> True | Some ua \<Rightarrow> setUserAgent pp ua = Resolved ()"
    "browserClose pp = Resolved ()"
    using assms options by (simp_all add: browser_ready_def)
  have body: "fst (web_body h pp browserOptions ?start) = ?loop"
    using ready(2-4) by (rule web_body_ready)
  have "fst (finally_close pp (web_body h pp browserOptions ?start)) = ?loop"
    using body ready(5) by (cases ?loop) (simp_all add: finally_close_def)
  then show ?thesis
    using options ready(1) by (simp add: WebBrowseAgent_execute_def Let_def)
qed

text \<open>
  What the item loops do achieve with the continue-on-failure flag enabled: the loop is
  never rejected; when it resolves, the output has exactly one entry per input item, in
  order (the item's result if its work resolved, the error-shaped entry of its error if
  it was rejected). It stays pending when the work of some item never settles. This
  holds of the execute entry points of the Terminal Agent, the MCP Connector, the LM
  Studio Agent and the Hub Monitor, and of the item loop of the Web Browse Agent; it
  holds of the execute entry point of the Web Browse Agent whenever its browser can be
  set up and released, and of every output that it returns.
\<close>

lemma settled_items_keep_every_entry:
  assumes "continueOnFail h"
  shows "keeps_every_item error_entry (terminal_item h spawn connect) (length (getInputData h))
           (TerminalAgent_execute h spawn connect) \<and>
         keeps_every_item error_entry (mcp_item h rt socket) (length (getInputData h))
           (MCPConnector_execute h rt socket) \<and>
         keeps_every_item error_entry (lmstudio_item h request) (length (getInputData h))
           (LMStudioAgent_execute h request) \<and>
         keeps_every_item (hub_error_entry rt) (hub_item h rt monitor) (length (getInputData h))
           (HubMonitor_execute h rt monitor) \<and>
         keeps_every_item error_entry (web_work h pp) (length (getInputData h))
           (fst (web_loop h pp [0 ..< length (getInputData h)] [] calls)) \<and>
         (browser_ready h pp \<longrightarrow>
            keeps_every_item error_entry (web_work h pp) (length (getInputData h))
              (fst (WebBrowseAgent_execute h pp))) \<and>
         (fst (WebBrowseAgent_execute h pp) = Resolved out \<longrightarrow>
            keeps_every_item error_entry (web_work h pp) (length (getInputData h)) (Resolved out))"
proof (intro conjI impI)
  show "keeps_every_item error_entry (terminal_item h spawn connect) (length (getInputData h))
           (TerminalAgent_execute h spawn connect)"
    using assms by (simp add: TerminalAgent_execute_def run_items_keeps_every_item)
  show "keeps_every_item error_entry (mcp_item h rt socket) (length (getInputData h))
           (MCPConnector_execute h rt socket)"
    using assms by (simp add: MCPConnector_execute_def run_items_keeps_every_item)
  show "keeps_every_item error_entry (lmstudio_item h request) (length (getInputData h))
           (LMStudioAgent_execute h request)"
    using assms by (simp add: LMStudioAgent_execute_def run_items_keeps_every_item)
  show "keeps_every_item (hub_error_entry rt) (hub_item h rt monitor) (length (getInputData h))
           (HubMonitor_execute h rt monitor)"
    using assms by (simp add: HubMonitor_execute_def run_items_keeps_every_item)
  show loop: "keeps_every_item error_entry (web_work h pp) (length (getInputData h))
           (fst (web_loop h pp [0 ..< length (getInputData h)] [] calls))" for calls
    using assms by (simp add: web_loop_run_items run_items_keeps_every_item)
  show "keeps_every_item error_entry (web_work h pp) (length (getInputData h))
          (fst (WebBrowseAgent_execute h pp))" if "browser_ready h pp"
    using assms that by (simp add: web_execute_ready run_items_keeps_every_item)
  assume "fst (WebBrowseAgent_execute h pp) = Resolved out"
  then obtain calls' where
    "fst (web_loop h pp [0 ..< length (getInputData h)] [] calls') = Resolved out"
    using web_execute_resolved by blast
  then show "keeps_every_item error_entry (web_work h pp) (length (getInputData h)) (Resolved out)"
    using loop [of calls'] by simp
qed

text \<open>In the MCP Connector the handler that builds and sends the message has its own
  \<^verbatim>\<open>try\<close>: a throw inside it rejects the call, so the failing item gets its error-shaped
  entry and the next item is processed.\<close>

lemma MCPConnector_failing_send_continues:
  "MCPConnector_execute
     (example_batch
        [[(''connectionType'', ''websocket''), (''serverUrl'', ''ws://localhost:8080''),
          (''operation'', ''callTool''), (''toolName'', ''search''),
          (''toolArguments'', ''{oops'')],
         [(''connectionType'', ''websocket''), (''serverUrl'', ''ws://localhost:8080''),
          (''operation'', ''listTools'')]] True)
     example_runtime (\<lambda>url. Inr [WsOpen, WsMessage ''{}'', WsClose]) =
   Resolved
     [[(''error'', JStr ''Failed to send message: Unexpected token'')],
      [(''operation'', JStr ''listTools''), (''connectionType'', JStr ''websocket''),
       (''serverUrl'', JStr ''ws://localhost:8080''), (''success'', JBool True),
       (''response'', JObj []), (''timestamp'', JStr ''2024-01-01T00:00:00.000Z'')]]"
  by (simp add: MCPConnector_execute_def example_batch_def example_runtime_def mcp_item_def
      lookup_def await_def executeWebSocketOperation_def ws_run_def ws_init_def
      buildMCPMessage_def bindE_def baseMessage_def spread_def error_entry_def upt_rec)

text \<open>
  C2. With the continue-on-failure flag enabled, an item whose processing fails should
  never abort the processing of the remaining items, and the output should have one
  entry per input item. In the Hub Monitor the close handler of the process monitor
  calls \<^verbatim>\<open>parseProcessList\<close> outside any \<^verbatim>\<open>try\<close>: for a batch of two process-monitor
  items, the first with the pattern "(node", which is not a regular expression, and
  the second with the pattern "node", the constructor throws inside the handler, the
  promise of the first item is never settled, the second item, whose work would
  resolve, is never processed, and the node returns no output.
\<close>

theorem HubMonitor_execute_stalls_on_invalid_pattern:
  "hub_item
     (example_batch [[(''operation'', ''processMonitor''), (''processPattern'', ''(node'')],
                     [(''operation'', ''processMonitor''), (''processPattern'', ''node'')]] True)
     example_runtime
     (hub_monitor
        (example_batch [[(''operation'', ''processMonitor''), (''processPattern'', ''(node'')],
                        [(''operation'', ''processMonitor''), (''processPattern'', ''node'')]] True)
        (\<lambda>cmd args cwd. Inr [StdoutData example_listing, Close (Some 0)])
        example_regexp False (\<lambda>operation i. Resolved [])) 0 = Pending \<and>
   hub_item
     (example_batch [[(''operation'', ''processMonitor''), (''processPattern'', ''(node'')],
                     [(''operation'', ''processMonitor''), (''processPattern'', ''node'')]] True)
     example_runtime
     (hub_monitor
        (example_batch [[(''operation'', ''processMonitor''), (''processPattern'', ''(node'')],
                        [(''operation'', ''processMonitor''), (''processPattern'', ''node'')]] True)
        (\<lambda>cmd args cwd. Inr [StdoutData example_listing, Close (Some 0)])
        example_regexp False (\<lambda>operation i. Resolved [])) 1 =
     Resolved [(''operation'', JStr ''processMonitor''),
               (''timestamp'', JStr ''2024-01-01T00:00:00.000Z''),
               (''processes'',
                JArr [JObj [(''name'', JStr ''/usr/bin/Node server.js''), (''pid'', JStr ''101'')]]),
               (''pattern'', JStr ''node''), (''count'', JNum 1)] \<and>
   HubMonitor_execute
     (example_batch [[(''operation'', ''processMonitor''), (''processPattern'', ''(node'')],
                     [(''operation'', ''processMonitor''), (''processPattern'', ''node'')]] True)
     example_runtime
     (hub_monitor
        (example_batch [[(''operation'', ''processMonitor''), (''processPattern'', ''(node'')],
                        [(''operation'', ''processMonitor''), (''processPattern'', ''node'')]] True)
        (\<lambda>cmd args cwd. Inr [StdoutData example_listing, Close (Some 0)])
        example_regexp False (\<lambda>operation i. Resolved [])) = Pending"
proof -
  let ?h = "example_batch [[(''operation'', ''processMonitor''), (''processPattern'', ''(node'')],
                           [(''operation'', ''processMonitor''), (''processPattern'', ''node'')]] True"
  let ?spawn = "\<lambda>cmd args cwd. Inr [StdoutData example_listing, Close (Some (0::int))]"
  let ?monitor = "hub_monitor ?h ?spawn example_regexp False (\<lambda>operation i. Resolved [])"
  have first: "executeProcessMonitor ?h ?spawn example_regexp False 0 = Pending"
    by (simp add: executeProcessMonitor_def example_batch_def lookup_def monitor_init_def
        parseProcessList_def bindE_def Let_def example_regexp_def)
  have second: "executeProcessMonitor ?h ?spawn example_regexp False 1 =
     Resolved [(''processes'',
                JArr [JObj [(''name'', JStr ''/usr/bin/Node server.js''), (''pid'', JStr ''101'')]]),
               (''pattern'', JStr ''node''), (''count'', JNum 1)]"
    by (simp add: executeProcessMonitor_def example_batch_def lookup_def monitor_init_def
        parseProcessList_def bindE_def Let_def example_regexp_def example_listing_def
        parse_line_def trim_def isWhiteSpace_def lower_def entry_json_def)
  have operation: "getNodeParameter ?h ''operation'' 0 = Inr ''processMonitor''"
    "getNodeParameter ?h ''operation'' 1 = Inr ''processMonitor''"
    by (simp_all add: example_batch_def)
  have item0: "hub_item ?h example_runtime ?monitor 0 = Pending"
    using first operation(1) by (simp add: hub_item_def hub_monitor_def lookup_def await_def)
  have item1: "hub_item ?h example_runtime ?monitor 1 =
     Resolved [(''operation'', JStr ''processMonitor''),
               (''timestamp'', JStr ''2024-01-01T00:00:00.000Z''),
               (''processes'',
                JArr [JObj [(''name'', JStr ''/usr/bin/Node server.js''), (''pid'', JStr ''101'')]]),
               (''pattern'', JStr ''node''), (''count'', JNum 1)]"
    using second operation(2)
    by (simp add: hub_item_def hub_monitor_def lookup_def await_def spread_def
        example_runtime_def)
  have items: "length (getInputData ?h) = 2" and flag: "continueOnFail ?h"
    by (simp_all add: example_batch_def)
  have "HubMonitor_execute ?h example_runtime ?monitor = Pending"
    unfolding HubMonitor_execute_def items using item0 by (simp add: upt_rec)
  then show ?thesis
    using item0 item1 by simp
qed

end
